theory Spec2Isabelle
  imports Complex_Main "HOL-Library.Char_ord" "HOL-Library.List_Lexorder" "HOL-Library.Product_Lexorder"
begin

section \<open>JSON values and Python truthiness\<close>

text \<open>
  The handlers of \<^verbatim>\<open>part-4/app.py\<close> read the request body with
  \<^verbatim>\<open>request.get_json()\<close>. The model covers the bodies the handlers are written for:
  \<^verbatim>\<open>None\<close> (no usable body) and a JSON object whose members are scalars (null, a
  boolean, an integer of any size, a string). An object is the list of its items, each key
  once, looked up with \<open>map_of\<close>.
\<close>

datatype jval = JNull | JBool bool | JInt int | JStr string

type_synonym jobject = "(string \<times> jval) list"

text \<open>Python's \<^verbatim>\<open>bool(v)\<close>: None, False, 0 and the empty string are falsy.\<close>

fun truthy :: "jval \<Rightarrow> bool" where
  "truthy JNull = False"
| "truthy (JBool b) = b"
| "truthy (JInt n) = (n \<noteq> 0)"
| "truthy (JStr s) = (s \<noteq> [])"

text \<open>\<^verbatim>\<open>not data\<close> for the value \<^verbatim>\<open>get_json()\<close> returned: None and the empty dict are falsy.\<close>

fun no_data :: "jobject option \<Rightarrow> bool" where
  "no_data None = True"
| "no_data (Some d) = (d = [])"

text \<open>\<^verbatim>\<open>data.get(k)\<close>: the member, or None (here \<open>JNull\<close>) when the key is absent.\<close>

definition dict_get :: "jobject \<Rightarrow> string \<Rightarrow> jval" where
  "dict_get d k = (case map_of d k of None \<Rightarrow> JNull | Some v \<Rightarrow> v)"

text \<open>\<^verbatim>\<open>k in data\<close>.\<close>

definition has_key :: "jobject \<Rightarrow> string \<Rightarrow> bool" where
  "has_key d k = (map_of d k \<noteq> None)"

section \<open>Values on their way into SQLite\<close>

text \<open>
  Neither the handlers nor the ORM check the type of a value: it is handed to the SQLite
  driver as it came. The driver binds None as NULL, a string as text, an integer as a
  64-bit integer and \<^verbatim>\<open>True\<close>/\<^verbatim>\<open>False\<close> as 1/0; an integer beyond 64 bits makes it
  raise \<open>OverflowError\<close>. An unhandled exception leaves the handler and the session is
  discarded with the request, so nothing of the request is persisted (Flask answers 500).
  \<open>IntegrityError\<close> is the database refusing a write; \<open>BadRequestKeyError\<close> is
  \<^verbatim>\<open>request.form[k]\<close> on a missing field (Flask answers 400). \<open>Unmodelled\<close> is no
  exception of the program: it marks a request that leaves this model (see
  \<open>numeric_reading\<close>), stopped where it does so with the store as it was.
\<close>

datatype exn = IntegrityError | BadRequestKeyError | OverflowError | Unmodelled

definition int64 :: "int \<Rightarrow> bool" where
  "int64 n = (- 9223372036854775808 \<le> n \<and> n \<le> 9223372036854775807)"

fun bindable :: "jval \<Rightarrow> bool" where
  "bindable (JInt n) = int64 n"
| "bindable _ = True"

text \<open>The decimal text of an integer, as SQLite writes it.\<close>

fun decimal_nat :: "nat \<Rightarrow> string" where
  "decimal_nat n =
     (if n < 10 then [''0123456789'' ! n]
      else decimal_nat (n div 10) @ [''0123456789'' ! (n mod 10)])"

declare decimal_nat.simps [simp del]

definition decimal :: "int \<Rightarrow> string" where
  "decimal n = (if n < 0 then CHR ''-'' # decimal_nat (nat (- n)) else decimal_nat (nat n))"

text \<open>
  A column declared \<open>String\<close> or \<open>Text\<close> has TEXT affinity: a number written to it, or
  compared with it, becomes its decimal text.
\<close>

fun text_affinity :: "jval \<Rightarrow> jval" where
  "text_affinity (JInt n) = JStr (decimal n)"
| "text_affinity (JBool b) = JStr (if b then ''1'' else ''0'')"
| "text_affinity v = v"

text \<open>
  A column declared \<open>Integer\<close> has INTEGER affinity: a text written to it, or compared
  with it, is read as a number when it spells one. The model follows two cases exactly: a
  text without any digit spells no number and stays text; a text that is all decimal
  digits, with or without a leading minus sign, and fits 64 bits is that integer. Every
  other text with a digit in it (spaces, a plus sign, a fraction, an exponent, too many
  digits) is read, if at all, as a floating-point number: that is \<open>OtherNumber\<close>, which
  the model does not follow.
\<close>

definition is_digit :: "char \<Rightarrow> bool" where
  "is_digit c = (c \<in> set ''0123456789'')"

definition digit_value :: "char \<Rightarrow> int" where
  "digit_value c = int (of_char c) - 48"

definition digits_value :: "string \<Rightarrow> int" where
  "digits_value cs = foldl (\<lambda>a c. 10 * a + digit_value c) 0 cs"

datatype text_number = Integer int | NotNumber | OtherNumber

definition numeric_reading :: "string \<Rightarrow> text_number" where
  "numeric_reading s =
     (if \<not> list_ex is_digit s then NotNumber
      else if list_all is_digit s \<and> digits_value s \<le> 9223372036854775807
      then Integer (digits_value s)
      else if s \<noteq> [] \<and> hd s = CHR ''-'' \<and> tl s \<noteq> [] \<and> list_all is_digit (tl s) \<and>
              digits_value (tl s) \<le> 9223372036854775807
      then Integer (- digits_value (tl s))
      else OtherNumber)"

fun integer_affinity :: "jval \<Rightarrow> exn + jval" where
  "integer_affinity (JStr s) =
     (case numeric_reading s of
        Integer n \<Rightarrow> Inr (JInt n)
      | NotNumber \<Rightarrow> Inr (JStr s)
      | OtherNumber \<Rightarrow> Inl Unmodelled)"
| "integer_affinity (JBool b) = Inr (JInt (if b then 1 else 0))"
| "integer_affinity v = Inr v"

section \<open>The store of part 4: authors and books\<close>

text \<open>
  A row holds what SQLite keeps of the values written to it: text (or NULL) in the
  \<open>String\<close> and \<open>Text\<close> columns; an integer, a text that spells no number, or NULL
  in \<open>author_id\<close> and \<open>year\<close>. The primary key is an integer. \<open>created_at\<close> is
  the clock reading at insertion.
\<close>

record author =
  author_id_pk :: int
  author_name :: jval
  author_bio :: jval
  author_city :: jval

record book =
  book_id_pk :: int
  book_title :: jval
  book_author_id :: jval
  book_year :: jval
  book_isbn :: jval
  book_created_at :: int

record db =
  authors :: "author list"
  books :: "book list"

text \<open>The key a stored \<open>author_id\<close> is, when it is one.\<close>

fun key_of :: "jval \<Rightarrow> int option" where
  "key_of (JInt n) = Some n"
| "key_of (JBool b) = Some (if b then 1 else 0)"
| "key_of _ = None"

text \<open>
  \<^verbatim>\<open>Author.query.get(v)\<close> and \<^verbatim>\<open>Book.query.get(id)\<close>: the row whose key equals the
  value. The key column is an integer column, so SQLite reads the value with INTEGER
  affinity before it compares: the text \<^verbatim>\<open>'1'\<close> finds the row with key 1, and a text
  that spells no number finds none. The keys of a table fit 64 bits; an integer that is no
  key and does not fit cannot be bound, and the query raises \<open>OverflowError\<close>.
\<close>

definition Author_query_get :: "db \<Rightarrow> jval \<Rightarrow> exn + author option" where
  "Author_query_get s v =
     (case integer_affinity v of
        Inl e \<Rightarrow> Inl e
      | Inr v' \<Rightarrow>
          (case key_of v' of
             None \<Rightarrow> Inr None
           | Some k \<Rightarrow>
               (case find (\<lambda>a. author_id_pk a = k) (authors s) of
                  Some a \<Rightarrow> Inr (Some a)
                | None \<Rightarrow> if int64 k then Inr None else Inl OverflowError)))"

definition Book_query_get :: "db \<Rightarrow> int \<Rightarrow> exn + book option" where
  "Book_query_get s k =
     (case find (\<lambda>b. book_id_pk b = k) (books s) of
        Some b \<Rightarrow> Inr (Some b)
      | None \<Rightarrow> if int64 k then Inr None else Inl OverflowError)"

text \<open>
  \<^verbatim>\<open>Book.query.filter_by(isbn=v).first()\<close>: the first book whose isbn equals \<open>v\<close>, the
  two compared as text since the column has TEXT affinity (for None the ORM asks for the
  books without an isbn).
\<close>

definition Book_filter_by_isbn_first :: "db \<Rightarrow> jval \<Rightarrow> exn + book option" where
  "Book_filter_by_isbn_first s v =
     (if bindable v
      then Inr (find (\<lambda>b. text_affinity (book_isbn b) = text_affinity v) (books s))
      else Inl OverflowError)"

text \<open>
  The key SQLite gives a row inserted without one: one more than the largest key in the
  table, 1 in an empty table.
\<close>

definition next_id :: "int list \<Rightarrow> int" where
  "next_id ks = (if ks = [] then 1 else Max (set ks) + 1)"

text \<open>
  The constraints the models declare, checked by the database when a row is written:
  \<^verbatim>\<open>nullable=False\<close> on \<open>Author.name\<close>, \<open>Book.title\<close> and \<open>Book.author_id\<close>,
  \<^verbatim>\<open>unique=True\<close> on \<open>Book.isbn\<close> (NULLs never collide; the isbns of the table are
  compared as the text they are). SQLite enforces no foreign key unless asked to, and the
  application never asks.
\<close>

definition author_row_ok :: "author \<Rightarrow> bool" where
  "author_row_ok a = (author_name a \<noteq> JNull)"

definition book_row_ok :: "book list \<Rightarrow> book \<Rightarrow> bool" where
  "book_row_ok others b =
     (book_title b \<noteq> JNull \<and> book_author_id b \<noteq> JNull \<and>
      (book_isbn b = JNull \<or>
       list_all (\<lambda>b'. text_affinity (book_isbn b') \<noteq> book_isbn b) others))"

text \<open>
  \<^verbatim>\<open>db.session.add(new_author)\<close> followed by the flush of the INSERT: the values are
  bound, each column keeps the value under its affinity, and the constraints are checked.
  The result is the row as the table has it, which is what the object shows once the
  commit has expired it.
\<close>

definition insert_author :: "jval \<Rightarrow> jval \<Rightarrow> jval \<Rightarrow> db \<Rightarrow> exn + (author \<times> db)" where
  "insert_author n b c s =
     (if \<not> (bindable n \<and> bindable b \<and> bindable c) then Inl OverflowError
      else let a = \<lparr>author_id_pk = next_id (map author_id_pk (authors s)),
                    author_name = text_affinity n, author_bio = text_affinity b,
                    author_city = text_affinity c\<rparr>
           in if author_row_ok a then Inr (a, s\<lparr>authors := authors s @ [a]\<rparr>)
              else Inl IntegrityError)"

definition insert_book :: "int \<Rightarrow> jval \<Rightarrow> jval \<Rightarrow> jval \<Rightarrow> jval \<Rightarrow> db \<Rightarrow> exn + (book \<times> db)" where
  "insert_book now t a y i s =
     (if \<not> (bindable t \<and> bindable a \<and> bindable y \<and> bindable i) then Inl OverflowError
      else (case integer_affinity a of
              Inl e \<Rightarrow> Inl e
            | Inr a' \<Rightarrow>
                (case integer_affinity y of
                   Inl e \<Rightarrow> Inl e
                 | Inr y' \<Rightarrow>
                     let b = \<lparr>book_id_pk = next_id (map book_id_pk (books s)),
                              book_title = text_affinity t, book_author_id = a',
                              book_year = y', book_isbn = text_affinity i,
                              book_created_at = now\<rparr>
                     in if book_row_ok (books s) b then Inr (b, s\<lparr>books := books s @ [b]\<rparr>)
                        else Inl IntegrityError)))"

text \<open>
  The flush of a modified object: an UPDATE of the row with the object's key that sets the
  columns whose attribute changed, none when no attribute changed. \<open>old\<close> is the row as
  it was loaded and \<open>new\<close> the object with the values the handler assigned; a column that
  is set keeps the assigned value under its affinity. The result is the row as the table
  has it afterwards.
\<close>

definition set_text :: "jval \<Rightarrow> jval \<Rightarrow> jval" where
  "set_text old v = (if v = old then old else text_affinity v)"

definition set_integer :: "jval \<Rightarrow> jval \<Rightarrow> exn + jval" where
  "set_integer old v = (if v = old then Inr old else integer_affinity v)"

definition flush_author :: "author \<Rightarrow> author \<Rightarrow> db \<Rightarrow> exn + (author \<times> db)" where
  "flush_author old new s =
     (if new = old then Inr (old, s)
      else if \<not> ((author_name new = author_name old \<or> bindable (author_name new)) \<and>
                  (author_bio new = author_bio old \<or> bindable (author_bio new)) \<and>
                  (author_city new = author_city old \<or> bindable (author_city new)))
      then Inl OverflowError
      else let row = old\<lparr>author_name := set_text (author_name old) (author_name new),
                         author_bio := set_text (author_bio old) (author_bio new),
                         author_city := set_text (author_city old) (author_city new)\<rparr>
           in if author_row_ok row
              then Inr (row, s\<lparr>authors := map (\<lambda>a. if author_id_pk a = author_id_pk old then row else a)
                                              (authors s)\<rparr>)
              else Inl IntegrityError)"

definition flush_book :: "book \<Rightarrow> book \<Rightarrow> db \<Rightarrow> exn + (book \<times> db)" where
  "flush_book old new s =
     (if new = old then Inr (old, s)
      else if \<not> ((book_title new = book_title old \<or> bindable (book_title new)) \<and>
                  (book_author_id new = book_author_id old \<or> bindable (book_author_id new)) \<and>
                  (book_year new = book_year old \<or> bindable (book_year new)) \<and>
                  (book_isbn new = book_isbn old \<or> bindable (book_isbn new)))
      then Inl OverflowError
      else (case set_integer (book_author_id old) (book_author_id new) of
              Inl e \<Rightarrow> Inl e
            | Inr a' \<Rightarrow>
                (case set_integer (book_year old) (book_year new) of
                   Inl e \<Rightarrow> Inl e
                 | Inr y' \<Rightarrow>
                     let row = old\<lparr>book_title := set_text (book_title old) (book_title new),
                                   book_author_id := a', book_year := y',
                                   book_isbn := set_text (book_isbn old) (book_isbn new)\<rparr>
                     in if book_row_ok (filter (\<lambda>b. book_id_pk b \<noteq> book_id_pk old) (books s)) row
                        then Inr (row, s\<lparr>books := map (\<lambda>b. if book_id_pk b = book_id_pk old then row else b)
                                                      (books s)\<rparr>)
                        else Inl IntegrityError)))"

text \<open>
  \<^verbatim>\<open>author.books\<close>: the relationship loads the books whose \<open>author_id\<close> is the author's key.
\<close>

definition author_books :: "db \<Rightarrow> author \<Rightarrow> book list" where
  "author_books s a = filter (\<lambda>b. key_of (book_author_id b) = Some (author_id_pk a)) (books s)"

text \<open>
  \<^verbatim>\<open>db.session.delete(author)\<close>: the relationship is declared with
  \<^verbatim>\<open>cascade="all, delete-orphan"\<close>, so the session deletes the loaded books, each by
  its key, and then the author's row.
\<close>

definition session_delete_author :: "author \<Rightarrow> db \<Rightarrow> db" where
  "session_delete_author a s =
     \<lparr>authors = filter (\<lambda>a'. author_id_pk a' \<noteq> author_id_pk a) (authors s),
      books = filter (\<lambda>b. book_id_pk b \<notin> set (map book_id_pk (author_books s a))) (books s)\<rparr>"

definition session_delete_book :: "book \<Rightarrow> db \<Rightarrow> db" where
  "session_delete_book b s = s\<lparr>books := filter (\<lambda>b'. book_id_pk b' \<noteq> book_id_pk b) (books s)\<rparr>"

section \<open>Responses\<close>

record author_dict =
  ad_id :: int
  ad_name :: jval
  ad_bio :: jval
  ad_city :: jval
  ad_books_count :: nat

record book_dict =
  bd_id :: int
  bd_title :: jval
  bd_author_id :: jval
  bd_author_name :: jval
  bd_year :: jval
  bd_isbn :: jval
  bd_created_at :: int

record books_page =
  bp_count :: nat
  bp_page :: int
  bp_pages :: int
  bp_per_page :: int
  bp_has_next :: bool
  bp_has_prev :: bool
  bp_books :: "book_dict list"

text \<open>
  The JSON envelopes: \<open>Failure e\<close> is \<^verbatim>\<open>{'success': False, 'error': e}\<close>, the others
  carry \<^verbatim>\<open>'success': True\<close> with a message and the payload.
\<close>

datatype payload =
    Failure string
  | Message string
  | AuthorPayload string author_dict
  | BookPayload string book_dict
  | BooksPayload books_page

datatype response = Response (status: nat) (body: payload)

datatype 'r outcome = Returned 'r | Raised exn

text \<open>
  \<^verbatim>\<open>Author.to_dict\<close> and \<^verbatim>\<open>Book.to_dict\<close>, of a row of the table. The
  \<open>author_id\<close> of such a row is a value SQLite stored, which the lookup of the author's
  name binds without error; the name is \<^verbatim>\<open>'Unknown Author'\<close> when it finds no author.
\<close>

definition Author_to_dict :: "db \<Rightarrow> author \<Rightarrow> author_dict" where
  "Author_to_dict s a =
     \<lparr>ad_id = author_id_pk a, ad_name = author_name a, ad_bio = author_bio a,
      ad_city = author_city a, ad_books_count = length (author_books s a)\<rparr>"

definition Book_to_dict :: "db \<Rightarrow> book \<Rightarrow> book_dict" where
  "Book_to_dict s b =
     \<lparr>bd_id = book_id_pk b, bd_title = book_title b, bd_author_id = book_author_id b,
      bd_author_name = (case Author_query_get s (book_author_id b) of
                          Inr (Some a) \<Rightarrow> author_name a | _ \<Rightarrow> JStr ''Unknown Author''),
      bd_year = book_year b, bd_isbn = book_isbn b, bd_created_at = book_created_at b\<rparr>"

section \<open>Author routes\<close>

text \<open>
  In the routes with \<^verbatim>\<open><int:id>\<close>, \<open>ident\<close> is what the converter parsed from the
  path: a decimal integer without sign, of any size.
\<close>

definition create_author :: "jobject option \<Rightarrow> db \<Rightarrow> response outcome \<times> db" where
  "create_author data s =
     (if no_data data then (Returned (Response 400 (Failure ''No data provided'')), s)
      else let d = the data in
        if \<not> truthy (dict_get d ''name'')
        then (Returned (Response 400 (Failure ''Name is required'')), s)
        else (case insert_author (dict_get d ''name'') (dict_get d ''bio'') (dict_get d ''city'') s of
                Inl e \<Rightarrow> (Raised e, s)
              | Inr (new_author, s') \<Rightarrow>
                  (Returned (Response 201
                     (AuthorPayload ''Author created successfully'' (Author_to_dict s' new_author))), s')))"

definition update_author :: "int \<Rightarrow> jobject option \<Rightarrow> db \<Rightarrow> response outcome \<times> db" where
  "update_author ident data s =
     (case Author_query_get s (JInt ident) of
        Inl e \<Rightarrow> (Raised e, s)
      | Inr None \<Rightarrow> (Returned (Response 404 (Failure ''Author not found'')), s)
      | Inr (Some author) \<Rightarrow>
          if no_data data then (Returned (Response 400 (Failure ''No data provided'')), s)
          else let d = the data;
                   a1 = (if has_key d ''name'' then author\<lparr>author_name := dict_get d ''name''\<rparr> else author);
                   a2 = (if has_key d ''bio'' then a1\<lparr>author_bio := dict_get d ''bio''\<rparr> else a1);
                   a3 = (if has_key d ''city'' then a2\<lparr>author_city := dict_get d ''city''\<rparr> else a2)
               in (case flush_author author a3 s of
                     Inl e \<Rightarrow> (Raised e, s)
                   | Inr (row, s') \<Rightarrow>
                       (Returned (Response 200
                          (AuthorPayload ''Author updated successfully'' (Author_to_dict s' row))), s')))"

definition delete_author :: "int \<Rightarrow> db \<Rightarrow> response outcome \<times> db" where
  "delete_author ident s =
     (case Author_query_get s (JInt ident) of
        Inl e \<Rightarrow> (Raised e, s)
      | Inr None \<Rightarrow> (Returned (Response 404 (Failure ''Author not found'')), s)
      | Inr (Some author) \<Rightarrow>
          (Returned (Response 200 (Message ''Author and associated books deleted successfully'')),
           session_delete_author author s))"

section \<open>Book routes\<close>

text \<open>
  The query string of \<^verbatim>\<open>GET /api/books\<close>. \<^verbatim>\<open>request.args.get(k, default, type=int)\<close>
  gives the default when the parameter is absent or is not an integer, so \<open>page\<close> and
  \<open>per_page\<close> arrive as an optional integer.
\<close>

record books_args =
  arg_page :: "int option"
  arg_per_page :: "int option"
  arg_sort :: "string option"
  arg_order :: "string option"

definition args_get :: "'a option \<Rightarrow> 'a \<Rightarrow> 'a" where
  "args_get a dflt = (case a of None \<Rightarrow> dflt | Some v \<Rightarrow> v)"

text \<open>
  The order SQLite gives the values of a column: NULL first, then numbers, then text byte
  by byte. Rows with equal keys keep the order of the table (SQL leaves it open).
\<close>

fun sql_key :: "jval \<Rightarrow> nat \<times> int \<times> string" where
  "sql_key JNull = (0, 0, [])"
| "sql_key (JBool b) = (1, if b then 1 else 0, [])"
| "sql_key (JInt n) = (1, n, [])"
| "sql_key (JStr s) = (2, 0, s)"

text \<open>
  \<^verbatim>\<open>Book.query.order_by(col.asc() if order == 'asc' else col.desc())\<close>, the flag being
  \<^verbatim>\<open>order == 'asc'\<close>.
\<close>

definition order_by :: "('a \<Rightarrow> 'k::linorder) \<Rightarrow> bool \<Rightarrow> 'a list \<Rightarrow> 'a list" where
  "order_by col asc rows = (if asc then sort_key col rows else rev (sort_key col rows))"

record 'a pagination =
  pg_items :: "'a list"
  pg_page :: int
  pg_per_page :: int
  pg_total :: nat
  pg_pages :: int
  pg_has_next :: bool
  pg_has_prev :: bool

text \<open>
  Modelled from the spec: \<^verbatim>\<open>query.paginate(page, per_page, error_out=False)\<close> belongs to
  the ORM extension and is not in the repository. The spec gives it as: offset =
  (page - 1) \<times> page size; the page's rows plus total count, total page count and
  previous/next flags; an out-of-range page is empty, not an error; the number of pages is
  ceil(n/p). With \<open>error_out=False\<close> a page below 1 is read as 1 and a page size below 1
  as the extension's default 20.
\<close>

definition paginate :: "'a list \<Rightarrow> int \<Rightarrow> int \<Rightarrow> 'a pagination" where
  "paginate rows page per_page =
     (let page' = (if page < 1 then 1 else page);
          per_page' = (if per_page < 1 then 20 else per_page);
          total = length rows;
          pages = (if total = 0 then 0 else \<lceil>real total / real_of_int per_page'\<rceil>)
      in \<lparr>pg_items = take (nat per_page') (drop (nat ((page' - 1) * per_page')) rows),
          pg_page = page', pg_per_page = per_page', pg_total = total, pg_pages = pages,
          pg_has_next = (page' < pages), pg_has_prev = (page' > 1)\<rparr>)"

definition allowed_sort_fields :: "string list" where
  "allowed_sort_fields = [''id'', ''title'', ''year'', ''created_at'']"

definition get_books :: "books_args \<Rightarrow> db \<Rightarrow> response outcome \<times> db" where
  "get_books args s =
     (let page = args_get (arg_page args) 1;
          per_page = args_get (arg_per_page args) 10;
          sort_by0 = args_get (arg_sort args) ''id'';
          order = args_get (arg_order args) ''asc'';
          sort_by = (if sort_by0 \<notin> set allowed_sort_fields then ''id'' else sort_by0);
          query =
            (if sort_by = ''title'' then order_by (sql_key \<circ> book_title) (order = ''asc'') (books s)
             else if sort_by = ''year'' then order_by (sql_key \<circ> book_year) (order = ''asc'') (books s)
             else if sort_by = ''created_at'' then order_by book_created_at (order = ''asc'') (books s)
             else order_by book_id_pk (order = ''asc'') (books s));
          pagination = paginate query page per_page
      in (Returned (Response 200 (BooksPayload
            \<lparr>bp_count = pg_total pagination, bp_page = pg_page pagination,
             bp_pages = pg_pages pagination, bp_per_page = per_page,
             bp_has_next = pg_has_next pagination, bp_has_prev = pg_has_prev pagination,
             bp_books = map (Book_to_dict s) (pg_items pagination)\<rparr>)), s))"

text \<open>\<open>now\<close> is \<^verbatim>\<open>datetime.utcnow()\<close> at the insertion, the column's default.\<close>

definition create_book :: "int \<Rightarrow> jobject option \<Rightarrow> db \<Rightarrow> response outcome \<times> db" where
  "create_book now data s =
     (if no_data data then (Returned (Response 400 (Failure ''No data provided'')), s)
      else let d = the data in
        if \<not> truthy (dict_get d ''title'') \<or> \<not> truthy (dict_get d ''author_id'')
        then (Returned (Response 400 (Failure ''Title and author_id are required'')), s)
        else (case Author_query_get s (dict_get d ''author_id'') of
                Inl e \<Rightarrow> (Raised e, s)
              | Inr None \<Rightarrow> (Returned (Response 400 (Failure ''Author not found'')), s)
              | Inr (Some author) \<Rightarrow>
                  (case (if truthy (dict_get d ''isbn'')
                         then Book_filter_by_isbn_first s (dict_get d ''isbn'')
                         else Inr None) of
                     Inl e \<Rightarrow> (Raised e, s)
                   | Inr (Some existing) \<Rightarrow>
                       (Returned (Response 400 (Failure ''ISBN already exists'')), s)
                   | Inr None \<Rightarrow>
                       (case insert_book now (dict_get d ''title'') (dict_get d ''author_id'')
                               (dict_get d ''year'') (dict_get d ''isbn'') s of
                          Inl e \<Rightarrow> (Raised e, s)
                        | Inr (new_book, s') \<Rightarrow>
                            (Returned (Response 201
                               (BookPayload ''Book created successfully''
                                  (Book_to_dict s' new_book))), s')))))"

text \<open>
  In \<open>update_book\<close> the query for the author runs while the new title is pending: the
  session flushes it first (autoflush), so a title the database refuses raises there.
  The early return for a missing author leaves without a commit, and the flushed title is
  rolled back with the session. The commit at the end leaves the row as one UPDATE of all
  the assigned attributes leaves it, the title flushed on the way included.
\<close>

definition update_book :: "int \<Rightarrow> jobject option \<Rightarrow> db \<Rightarrow> response outcome \<times> db" where
  "update_book ident data s =
     (case Book_query_get s ident of
        Inl e \<Rightarrow> (Raised e, s)
      | Inr None \<Rightarrow> (Returned (Response 404 (Failure ''Book not found'')), s)
      | Inr (Some book) \<Rightarrow>
          if no_data data then (Returned (Response 400 (Failure ''No data provided'')), s)
          else let d = the data;
                   b1 = (if has_key d ''title'' then book\<lparr>book_title := dict_get d ''title''\<rparr> else book)
               in (case (if has_key d ''author_id''
                         then (case flush_book book b1 s of
                                 Inl e \<Rightarrow> Inl (Raised e)
                               | Inr (row1, s1) \<Rightarrow>
                                   (case Author_query_get s1 (dict_get d ''author_id'') of
                                      Inl e \<Rightarrow> Inl (Raised e)
                                    | Inr None \<Rightarrow>
                                        Inl (Returned (Response 400 (Failure ''Author not found'')))
                                    | Inr (Some author) \<Rightarrow>
                                        Inr (b1\<lparr>book_author_id := dict_get d ''author_id''\<rparr>)))
                         else Inr b1) of
                     Inl out \<Rightarrow> (out, s)
                   | Inr b2 \<Rightarrow>
                       let b3 = (if has_key d ''year'' then b2\<lparr>book_year := dict_get d ''year''\<rparr> else b2);
                           b4 = (if has_key d ''isbn'' then b3\<lparr>book_isbn := dict_get d ''isbn''\<rparr> else b3)
                       in (case flush_book book b4 s of
                             Inl e \<Rightarrow> (Raised e, s)
                           | Inr (row, s') \<Rightarrow>
                               (Returned (Response 200
                                  (BookPayload ''Book updated successfully'' (Book_to_dict s' row))), s'))))"

definition delete_book :: "int \<Rightarrow> db \<Rightarrow> response outcome \<times> db" where
  "delete_book ident s =
     (case Book_query_get s ident of
        Inl e \<Rightarrow> (Raised e, s)
      | Inr None \<Rightarrow> (Returned (Response 404 (Failure ''Book not found'')), s)
      | Inr (Some book) \<Rightarrow>
          (Returned (Response 200 (Message ''Book deleted successfully'')),
           session_delete_book book s))"

section \<open>Part 3: students and teachers\<close>

text \<open>
  The form routes of \<^verbatim>\<open>part-3/app.py\<close>. A form is the list of its fields, all strings;
  \<open>email\<close> is declared \<^verbatim>\<open>unique=True\<close> on both tables. The \<open>course_id\<close> column
  is an integer column: it keeps the form's text under INTEGER affinity.
\<close>

record course =
  course_id_pk :: int
  course_name :: string
  course_description :: string

record student =
  student_id_pk :: int
  student_name :: string
  student_email :: string
  student_course_id :: jval

record teacher =
  teacher_id_pk :: int
  teacher_name :: string
  teacher_email :: string
  teacher_specialization :: string
  teacher_course_id :: jval

record school =
  courses :: "course list"
  students :: "student list"
  teachers :: "teacher list"

datatype http_method = GET | POST

type_synonym form = "(string \<times> string) list"

text \<open>
  What a form route answers: a rendered template with the courses for its dropdown, or a
  redirect to a route after a flashed message and its category.
\<close>

datatype page = Render string "course list" | Redirect string string string

definition insert_student :: "string \<Rightarrow> string \<Rightarrow> string \<Rightarrow> school \<Rightarrow> exn + school" where
  "insert_student n e c s =
     (if list_all (\<lambda>x. student_email x \<noteq> e) (students s)
      then (case integer_affinity (JStr c) of
              Inl err \<Rightarrow> Inl err
            | Inr c' \<Rightarrow>
                Inr (s\<lparr>students := students s @
                       [\<lparr>student_id_pk = next_id (map student_id_pk (students s)),
                         student_name = n, student_email = e, student_course_id = c'\<rparr>]\<rparr>))
      else Inl IntegrityError)"

definition insert_teacher :: "string \<Rightarrow> string \<Rightarrow> string \<Rightarrow> string \<Rightarrow> school \<Rightarrow> exn + school" where
  "insert_teacher n e sp c s =
     (if list_all (\<lambda>x. teacher_email x \<noteq> e) (teachers s)
      then (case integer_affinity (JStr c) of
              Inl err \<Rightarrow> Inl err
            | Inr c' \<Rightarrow>
                Inr (s\<lparr>teachers := teachers s @
                       [\<lparr>teacher_id_pk = next_id (map teacher_id_pk (teachers s)),
                         teacher_name = n, teacher_email = e, teacher_specialization = sp,
                         teacher_course_id = c'\<rparr>]\<rparr>))
      else Inl IntegrityError)"

definition add_student :: "http_method \<Rightarrow> form \<Rightarrow> school \<Rightarrow> page outcome \<times> school" where
  "add_student method frm s =
     (if method = POST then
        (case map_of frm ''name'' of
           None \<Rightarrow> (Raised BadRequestKeyError, s)
         | Some name \<Rightarrow>
        (case map_of frm ''email'' of
           None \<Rightarrow> (Raised BadRequestKeyError, s)
         | Some email \<Rightarrow>
        (case map_of frm ''course_id'' of
           None \<Rightarrow> (Raised BadRequestKeyError, s)
         | Some course_id \<Rightarrow>
        (case insert_student name email course_id s of
           Inl e \<Rightarrow> (Raised e, s)
         | Inr s' \<Rightarrow>
             (Returned (Redirect ''index'' ''Student added successfully!'' ''success''), s')))))
      else (Returned (Render ''add.html'' (courses s)), s))"

definition add_teacher :: "http_method \<Rightarrow> form \<Rightarrow> school \<Rightarrow> page outcome \<times> school" where
  "add_teacher method frm s =
     (if method = POST then
        (case map_of frm ''name'' of
           None \<Rightarrow> (Raised BadRequestKeyError, s)
         | Some name \<Rightarrow>
        (case map_of frm ''email'' of
           None \<Rightarrow> (Raised BadRequestKeyError, s)
         | Some email \<Rightarrow>
        (let specialization = (case map_of frm ''specialization'' of None \<Rightarrow> [] | Some v \<Rightarrow> v) in
        (case map_of frm ''course_id'' of
           None \<Rightarrow> (Raised BadRequestKeyError, s)
         | Some course_id \<Rightarrow>
        (case insert_teacher name email specialization course_id s of
           Inl e \<Rightarrow> (Raised e, s)
         | Inr s' \<Rightarrow>
             (Returned (Redirect ''teachers'' ''Teacher added successfully!'' ''success''), s'))))))
      else (Returned (Render ''add_teacher.html'' (courses s)), s))"

section \<open>Reading an outcome\<close>

text \<open>A request failed: the handler raised, or answered with a client-error status.\<close>

fun is_error :: "response outcome \<Rightarrow> bool" where
  "is_error (Raised e) = True"
| "is_error (Returned r) = (400 \<le> status r)"

fun raised :: "'r outcome \<Rightarrow> bool" where
  "raised (Raised e) = True"
| "raised (Returned r) = False"

section \<open>A store to run the handlers on\<close>

text \<open>Two of the authors and three of the books that \<^verbatim>\<open>init_db\<close> seeds.\<close>

definition author_matthes :: author where
  "author_matthes = \<lparr>author_id_pk = 1, author_name = JStr ''Eric Matthes'',
     author_bio = JStr ''Python educator and author'', author_city = JStr ''Anchorage''\<rparr>"

definition author_orwell :: author where
  "author_orwell = \<lparr>author_id_pk = 2, author_name = JStr ''George Orwell'',
     author_bio = JStr ''English novelist and essayist'', author_city = JStr ''London''\<rparr>"

definition book_crash_course :: book where
  "book_crash_course = \<lparr>book_id_pk = 1, book_title = JStr ''Python Crash Course'',
     book_author_id = JInt 1, book_year = JInt 2019, book_isbn = JStr ''978-1593279288'',
     book_created_at = 100\<rparr>"

definition book_1984 :: book where
  "book_1984 = \<lparr>book_id_pk = 2, book_title = JStr ''1984'',
     book_author_id = JInt 2, book_year = JInt 1949, book_isbn = JStr ''978-0451524935'',
     book_created_at = 100\<rparr>"

definition book_animal_farm :: book where
  "book_animal_farm = \<lparr>book_id_pk = 3, book_title = JStr ''Animal Farm'',
     book_author_id = JInt 2, book_year = JInt 1945, book_isbn = JStr ''978-0451526342'',
     book_created_at = 100\<rparr>"

definition example_db :: db where
  "example_db = \<lparr>authors = [author_matthes, author_orwell],
                  books = [book_crash_course, book_1984, book_animal_farm]\<rparr>"

definition example_school :: school where
  "example_school =
     \<lparr>courses = [\<lparr>course_id_pk = 1, course_name = ''Python Basics'',
                   course_description = ''Learn Python programming fundamentals''\<rparr>],
      students = [\<lparr>student_id_pk = 1, student_name = ''Alice Smith'',
                    student_email = ''alice@student.com'', student_course_id = JInt 1\<rparr>],
      teachers = [\<lparr>teacher_id_pk = 1, teacher_name = ''Dr. Sarah Johnson'',
                    teacher_email = ''sarah@school.com'',
                    teacher_specialization = ''Python Programming'', teacher_course_id = JInt 1\<rparr>]\<rparr>"

section \<open>The constraints as properties of a store\<close>

text \<open>
  The unique constraint on \<open>Book.isbn\<close>: the database keeps it, so every store a request
  finds satisfies it.
\<close>

definition unique_isbn :: "db \<Rightarrow> bool" where
  "unique_isbn s = distinct (filter (\<lambda>v. v \<noteq> JNull) (map book_isbn (books s)))"

text \<open>With the primary key of the books: what the database guarantees of every store.\<close>

definition store_ok :: "db \<Rightarrow> bool" where
  "store_ok s = (distinct (map book_id_pk (books s)) \<and> unique_isbn s)"

section \<open>What an update leaves alone\<close>

text \<open>
  The row \<open>b'\<close> agrees with the row \<open>b\<close> on the key, on \<open>created_at\<close> and on every
  field that the request body \<open>d\<close> does not name.
\<close>

definition book_keeps_absent_fields :: "jobject \<Rightarrow> book \<Rightarrow> book \<Rightarrow> bool" where
  "book_keeps_absent_fields d b b' =
     (book_id_pk b' = book_id_pk b \<and> book_created_at b' = book_created_at b \<and>
      (\<not> has_key d ''title'' \<longrightarrow> book_title b' = book_title b) \<and>
      (\<not> has_key d ''author_id'' \<longrightarrow> book_author_id b' = book_author_id b) \<and>
      (\<not> has_key d ''year'' \<longrightarrow> book_year b' = book_year b) \<and>
      (\<not> has_key d ''isbn'' \<longrightarrow> book_isbn b' = book_isbn b))"

definition author_keeps_absent_fields :: "jobject \<Rightarrow> author \<Rightarrow> author \<Rightarrow> bool" where
  "author_keeps_absent_fields d a a' =
     (author_id_pk a' = author_id_pk a \<and>
      (\<not> has_key d ''name'' \<longrightarrow> author_name a' = author_name a) \<and>
      (\<not> has_key d ''bio'' \<longrightarrow> author_bio a' = author_bio a) \<and>
      (\<not> has_key d ''city'' \<longrightarrow> author_city a' = author_city a))"

text \<open>
  The attributes of the loaded object once a PUT handler has made all its assignments:
  each field that the body names has the body's value.
\<close>

definition assigned_book :: "jobject \<Rightarrow> book \<Rightarrow> book" where
  "assigned_book d book =
     \<lparr>book_id_pk = book_id_pk book,
      book_title = (if has_key d ''title'' then dict_get d ''title'' else book_title book),
      book_author_id =
        (if has_key d ''author_id'' then dict_get d ''author_id'' else book_author_id book),
      book_year = (if has_key d ''year'' then dict_get d ''year'' else book_year book),
      book_isbn = (if has_key d ''isbn'' then dict_get d ''isbn'' else book_isbn book),
      book_created_at = book_created_at book\<rparr>"

definition assigned_author :: "jobject \<Rightarrow> author \<Rightarrow> author" where
  "assigned_author d author =
     \<lparr>author_id_pk = author_id_pk author,
      author_name = (if has_key d ''name'' then dict_get d ''name'' else author_name author),
      author_bio = (if has_key d ''bio'' then dict_get d ''bio'' else author_bio author),
      author_city = (if has_key d ''city'' then dict_get d ''city'' else author_city author)\<rparr>"

section \<open>Reading the answer of the book list\<close>

text \<open>The \<open>books\<close> list of a returned page, empty for any other outcome.\<close>

fun returned_books :: "response outcome \<Rightarrow> book_dict list" where
  "returned_books (Returned (Response st (BooksPayload pg))) = bp_books pg"
| "returned_books _ = []"

text \<open>
  The sorting block of \<open>get_books\<close> on its own: the query it hands to \<open>paginate\<close>.
  \<open>get_books_eq\<close> below shows that \<open>get_books\<close> is the page of this query.
\<close>

definition books_query :: "books_args \<Rightarrow> db \<Rightarrow> book list" where
  "books_query args s =
     (let sort_by0 = args_get (arg_sort args) ''id'';
          order = args_get (arg_order args) ''asc'';
          sort_by = (if sort_by0 \<notin> set allowed_sort_fields then ''id'' else sort_by0)
      in if sort_by = ''title'' then order_by (sql_key \<circ> book_title) (order = ''asc'') (books s)
         else if sort_by = ''year'' then order_by (sql_key \<circ> book_year) (order = ''asc'') (books s)
         else if sort_by = ''created_at'' then order_by book_created_at (order = ''asc'') (books s)
         else order_by book_id_pk (order = ''asc'') (books s))"

section \<open>The boundary with SQLite on examples\<close>

lemma decimal_examples:
  "decimal 2024 = ''2024''" "decimal (- 15) = ''-15''" "decimal 0 = ''0''"
  by (simp_all add: decimal_def decimal_nat.simps)

lemma numeric_reading_examples:
  "numeric_reading ''1'' = Integer 1"
  "numeric_reading ''2024'' = Integer 2024"
  "numeric_reading ''-12'' = Integer (- 12)"
  "numeric_reading ''George Orwell'' = NotNumber"
  "numeric_reading [] = NotNumber"
  "numeric_reading ''1.5'' = OtherNumber"
  "numeric_reading ''9223372036854775808'' = OtherNumber"
  by (simp_all add: numeric_reading_def is_digit_def digits_value_def digit_value_def)

lemma Author_query_get_examples:
  "Author_query_get example_db (JInt 1) = Inr (Some author_matthes)"
  "Author_query_get example_db (JStr ''1'') = Inr (Some author_matthes)"
  "Author_query_get example_db (JBool True) = Inr (Some author_matthes)"
  "Author_query_get example_db (JInt 9999) = Inr None"
  "Author_query_get example_db (JStr ''George Orwell'') = Inr None"
  "Author_query_get example_db (JInt 9223372036854775808) = Inl OverflowError"
  "Author_query_get example_db (JStr ''1.5'') = Inl Unmodelled"
  by (simp_all add: Author_query_get_def int64_def numeric_reading_def is_digit_def
      digits_value_def digit_value_def example_db_def author_matthes_def author_orwell_def)

lemma update_book_text_author_id_example:
  "update_book 2 (Some [(''author_id'', JStr ''1'')]) example_db =
     (Returned (Response 200 (BookPayload ''Book updated successfully''
        \<lparr>bd_id = 2, bd_title = JStr ''1984'', bd_author_id = JInt 1,
         bd_author_name = JStr ''Eric Matthes'', bd_year = JInt 1949,
         bd_isbn = JStr ''978-0451524935'', bd_created_at = 100\<rparr>)),
      \<lparr>authors = [author_matthes, author_orwell],
       books = [book_crash_course, book_1984\<lparr>book_author_id := JInt 1\<rparr>, book_animal_farm]\<rparr>)"
  by (simp add: update_book_def Book_query_get_def Author_query_get_def int64_def has_key_def
      dict_get_def flush_book_def set_text_def set_integer_def book_row_ok_def Book_to_dict_def Let_def
      numeric_reading_def is_digit_def digits_value_def digit_value_def
      example_db_def author_matthes_def author_orwell_def book_crash_course_def book_1984_def
      book_animal_farm_def)

section \<open>Looking rows up by key\<close>

lemmas example_defs =
  example_db_def author_matthes_def author_orwell_def book_crash_course_def book_1984_def
  book_animal_farm_def


lemma find_None_image: "find (\<lambda>x. f x = k) xs = None \<longleftrightarrow> k \<notin> f ` set xs"
  by (induction xs) auto

lemma find_Some_image:
  "k \<in> f ` set xs \<Longrightarrow> \<exists>x. find (\<lambda>x. f x = k) xs = Some x \<and> f x = k \<and> x \<in> set xs"
  by (induction xs) auto

lemma find_SomeD: "find P xs = Some x \<Longrightarrow> P x \<and> x \<in> set xs"
  by (induction xs) (auto split: if_splits)

lemma Book_query_get_find:
  "Book_query_get s k = Inr (Some b) \<longleftrightarrow> find (\<lambda>b. book_id_pk b = k) (books s) = Some b"
  by (simp add: Book_query_get_def split: option.split)

lemma Author_query_get_find:
  "Author_query_get s (JInt k) = Inr (Some a) \<longleftrightarrow>
   find (\<lambda>a. author_id_pk a = k) (authors s) = Some a"
  by (simp add: Author_query_get_def split: option.split)

lemma Book_query_get_missing:
  "k \<notin> book_id_pk ` set (books s) \<Longrightarrow>
   Book_query_get s k = (if int64 k then Inr None else Inl OverflowError)"
  by (simp add: Book_query_get_def find_None_image [symmetric])

lemma Author_query_get_missing:
  "k \<notin> author_id_pk ` set (authors s) \<Longrightarrow>
   Author_query_get s (JInt k) = (if int64 k then Inr None else Inl OverflowError)"
  by (simp add: Author_query_get_def find_None_image [symmetric])

lemma Book_query_get_key:
  "k \<in> book_id_pk ` set (books s) \<Longrightarrow>
   \<exists>b. Book_query_get s k = Inr (Some b) \<and> book_id_pk b = k \<and> b \<in> set (books s)"
  using find_Some_image [of k book_id_pk "books s"] by (auto simp: Book_query_get_find)

lemma Author_query_get_key:
  "k \<in> author_id_pk ` set (authors s) \<Longrightarrow>
   \<exists>a. Author_query_get s (JInt k) = Inr (Some a) \<and> author_id_pk a = k \<and> a \<in> set (authors s)"
  using find_Some_image [of k author_id_pk "authors s"] by (auto simp: Author_query_get_find)

lemma Book_query_get_Some:
  "Book_query_get s k = Inr (Some b) \<Longrightarrow> book_id_pk b = k \<and> b \<in> set (books s)"
  unfolding Book_query_get_find by (drule find_SomeD) simp

lemma Author_query_get_Some:
  "Author_query_get s (JInt k) = Inr (Some a) \<Longrightarrow> author_id_pk a = k \<and> a \<in> set (authors s)"
  unfolding Author_query_get_find by (drule find_SomeD) simp

section \<open>Updating a key that is not there\<close>

text \<open>
  C8 as stated fails on an id that does not fit 64 bits: the route takes any decimal
  integer, the handler hands it to the lookup unchecked, and the lookup cannot bind it, so
  the request ends in \<open>OverflowError\<close> and not in a 404 answer.
\<close>

theorem update_missing_key_overflow_counterexample:
  "9223372036854775808 \<notin> book_id_pk ` set (books example_db) \<and>
   update_book 9223372036854775808 (Some [(''title'', JStr ''Emma'')]) example_db =
     (Raised OverflowError, example_db)"
  by (simp add: update_book_def Book_query_get_def int64_def example_defs)

text \<open>
  C8, amended. A PUT on \<^verbatim>\<open>/api/books/<id>\<close> or \<^verbatim>\<open>/api/authors/<id>\<close> whose id fits 64
  bits and is the key of no row answers 404 with the failure envelope, whatever the body,
  and the store it leaves is the store it found: both tables, row for row. An id that does
  not fit 64 bits (the key of no row either) raises \<open>OverflowError\<close>; the store is
  unchanged then too. The id is one the route passes on, an integer without sign.
\<close>

theorem update_missing_key_not_found:
  "(0 \<le> k \<and> int64 k \<and> k \<notin> book_id_pk ` set (books s) \<longrightarrow>
      update_book k data s = (Returned (Response 404 (Failure ''Book not found'')), s)) \<and>
   (0 \<le> k \<and> int64 k \<and> k \<notin> author_id_pk ` set (authors s) \<longrightarrow>
      update_author k data s = (Returned (Response 404 (Failure ''Author not found'')), s)) \<and>
   (0 \<le> k \<and> \<not> int64 k \<and> k \<notin> book_id_pk ` set (books s) \<longrightarrow>
      update_book k data s = (Raised OverflowError, s)) \<and>
   (0 \<le> k \<and> \<not> int64 k \<and> k \<notin> author_id_pk ` set (authors s) \<longrightarrow>
      update_author k data s = (Raised OverflowError, s))"
  by (simp add: update_book_def update_author_def Book_query_get_missing
      Author_query_get_missing)

theorem update_missing_key_not_found_witness:
  "(0::int) \<le> 7 \<and> int64 7 \<and> 7 \<notin> book_id_pk ` set (books example_db) \<and>
   7 \<notin> author_id_pk ` set (authors example_db) \<and>
   update_book 7 (Some [(''title'', JStr ''Emma'')]) example_db =
     (Returned (Response 404 (Failure ''Book not found'')), example_db) \<and>
   update_author 7 (Some [(''name'', JStr ''Jane Austen'')]) example_db =
     (Returned (Response 404 (Failure ''Author not found'')), example_db) \<and>
   (0::int) \<le> 9223372036854775808 \<and> \<not> int64 9223372036854775808 \<and>
   9223372036854775808 \<notin> author_id_pk ` set (authors example_db) \<and>
   update_author 9223372036854775808 (Some [(''name'', JStr ''Jane Austen'')]) example_db =
     (Raised OverflowError, example_db)"
  using update_missing_key_not_found [of 7 example_db "Some [(''title'', JStr ''Emma'')]"]
    update_missing_key_not_found [of 7 example_db "Some [(''name'', JStr ''Jane Austen'')]"]
    update_missing_key_not_found
      [of 9223372036854775808 example_db "Some [(''name'', JStr ''Jane Austen'')]"]
  by (simp add: int64_def example_defs)

section \<open>The empty body\<close>

text \<open>
  C10 as stated fails on a PUT whose id is the key of no row: the handler looks the row up
  before it reads the body, so the empty object gets 404, not 400.
\<close>

theorem empty_body_put_missing_counterexample:
  "update_author 7 (Some []) example_db =
     (Returned (Response 404 (Failure ''Author not found'')), example_db) \<and>
   fst (update_author 7 (Some []) example_db) \<noteq>
     Returned (Response 400 (Failure ''No data provided''))"
  by (simp add: update_author_def Author_query_get_def int64_def example_defs)

text \<open>
  C10, amended. When \<^verbatim>\<open>get_json()\<close> gives None or the empty object, both POST routes
  answer 400 ``No data provided'' and leave the store as it was, and so does each PUT route
  when its id is the key of an existing row; a PUT with the empty object is never an update.
\<close>

theorem empty_body_rejected:
  "no_data data \<Longrightarrow>
     create_author data s = (Returned (Response 400 (Failure ''No data provided'')), s) \<and>
     create_book now data s = (Returned (Response 400 (Failure ''No data provided'')), s) \<and>
     (k \<in> author_id_pk ` set (authors s) \<longrightarrow>
        update_author k data s = (Returned (Response 400 (Failure ''No data provided'')), s)) \<and>
     (j \<in> book_id_pk ` set (books s) \<longrightarrow>
        update_book j data s = (Returned (Response 400 (Failure ''No data provided'')), s))"
proof -
  assume n: "no_data data"
  have a: "k \<in> author_id_pk ` set (authors s) \<longrightarrow>
        update_author k data s = (Returned (Response 400 (Failure ''No data provided'')), s)"
  proof
    assume "k \<in> author_id_pk ` set (authors s)"
    then obtain a where "Author_query_get s (JInt k) = Inr (Some a)"
      using Author_query_get_key by blast
    then show "update_author k data s = (Returned (Response 400 (Failure ''No data provided'')), s)"
      using n by (simp add: update_author_def)
  qed
  have b: "j \<in> book_id_pk ` set (books s) \<longrightarrow>
        update_book j data s = (Returned (Response 400 (Failure ''No data provided'')), s)"
  proof
    assume "j \<in> book_id_pk ` set (books s)"
    then obtain b where "Book_query_get s j = Inr (Some b)"
      using Book_query_get_key by blast
    then show "update_book j data s = (Returned (Response 400 (Failure ''No data provided'')), s)"
      using n by (simp add: update_book_def)
  qed
  show ?thesis using n a b by (simp add: create_author_def create_book_def)
qed

theorem empty_body_rejected_witness:
  "no_data (Some []) \<and> 1 \<in> author_id_pk ` set (authors example_db) \<and>
   2 \<in> book_id_pk ` set (books example_db) \<and>
   create_author (Some []) example_db =
     (Returned (Response 400 (Failure ''No data provided'')), example_db) \<and>
   create_book 5 (Some []) example_db =
     (Returned (Response 400 (Failure ''No data provided'')), example_db) \<and>
   update_author 1 (Some []) example_db =
     (Returned (Response 400 (Failure ''No data provided'')), example_db) \<and>
   update_book 2 (Some []) example_db =
     (Returned (Response 400 (Failure ''No data provided'')), example_db)"
  using empty_body_rejected [of "Some []" example_db 5 1 2]
  by (simp add: example_defs)

section \<open>Creating a book for an author that is not there\<close>




section \<open>Deleting an author\<close>

text \<open>
  C2. When the id is the key of an Author, \<^verbatim>\<open>DELETE /api/authors/<id>\<close> answers 200 with
  the success message, and in the store it leaves no Book has that key as its author_id and
  no Author has that key.
\<close>

theorem delete_author_cascades:
  "k \<in> author_id_pk ` set (authors s) \<Longrightarrow>
   fst (delete_author k s) =
     Returned (Response 200 (Message ''Author and associated books deleted successfully'')) \<and>
   (\<forall>b \<in> set (books (snd (delete_author k s))). key_of (book_author_id b) \<noteq> Some k) \<and>
   k \<notin> author_id_pk ` set (authors (snd (delete_author k s)))"
proof -
  assume "k \<in> author_id_pk ` set (authors s)"
  then obtain a where a: "Author_query_get s (JInt k) = Inr (Some a)" "author_id_pk a = k"
    using Author_query_get_key by blast
  have del: "delete_author k s =
      (Returned (Response 200 (Message ''Author and associated books deleted successfully'')),
       session_delete_author a s)"
    using a by (simp add: delete_author_def)
  have "\<forall>b \<in> set (books (session_delete_author a s)). key_of (book_author_id b) \<noteq> Some k"
    using a(2) by (auto simp: session_delete_author_def author_books_def)
  moreover have "k \<notin> author_id_pk ` set (authors (session_delete_author a s))"
    using a(2) by (auto simp: session_delete_author_def)
  ultimately show ?thesis using del by simp
qed

theorem delete_author_cascades_witness:
  "2 \<in> author_id_pk ` set (authors example_db) \<and>
   delete_author 2 example_db =
     (Returned (Response 200 (Message ''Author and associated books deleted successfully'')),
      \<lparr>authors = [author_matthes], books = [book_crash_course]\<rparr>) \<and>
   map book_author_id (books (snd (delete_author 2 example_db))) = [JInt 1]"
  using delete_author_cascades [of 2 example_db]
  by (simp add: example_defs delete_author_def Author_query_get_def session_delete_author_def
      author_books_def)

section \<open>Duplicates of a unique field\<close>

lemma insert_student_duplicate:
  "e \<in> student_email ` set (students sc) \<Longrightarrow> insert_student n e c sc = Inl IntegrityError"
  by (auto simp: insert_student_def list_all_iff)

lemma insert_teacher_duplicate:
  "e \<in> teacher_email ` set (teachers sc) \<Longrightarrow> insert_teacher n e sp c sc = Inl IntegrityError"
  by (auto simp: insert_teacher_def list_all_iff)

lemma add_student_duplicate:
  assumes "map_of frm ''email'' = Some e" "e \<in> student_email ` set (students sc)"
  shows "raised (fst (add_student POST frm sc)) \<and> snd (add_student POST frm sc) = sc"
  using assms
  by (simp add: add_student_def insert_student_duplicate split: option.split)

lemma add_teacher_duplicate:
  assumes "map_of frm ''email'' = Some e" "e \<in> teacher_email ` set (teachers sc)"
  shows "raised (fst (add_teacher POST frm sc)) \<and> snd (add_teacher POST frm sc) = sc"
  using assms
  by (simp add: add_teacher_def insert_teacher_duplicate Let_def split: option.split)

lemma text_affinity_null: "text_affinity v = JNull \<longleftrightarrow> v = JNull"
  by (cases v) simp_all

lemma text_affinity_idem: "text_affinity (text_affinity v) = text_affinity v"
  by (cases v) simp_all

lemma book_row_ok_duplicate:
  assumes "x \<in> set others" "text_affinity (book_isbn x) = book_isbn b" "book_isbn b \<noteq> JNull"
  shows "\<not> book_row_ok others b"
  using assms by (auto simp: book_row_ok_def list_all_iff)

lemma insert_book_duplicate:
  assumes "i \<noteq> JNull" "i \<in> book_isbn ` set (books s)"
  shows "\<exists>e. insert_book now t a y i s = Inl e"
proof -
  obtain x where x: "x \<in> set (books s)" "book_isbn x = i" using assms(2) by auto
  have n: "text_affinity i \<noteq> JNull" using assms(1) by (simp add: text_affinity_null)
  have "\<not> book_row_ok (books s) b"
    if "book_isbn b = text_affinity i" for b
    using book_row_ok_duplicate [of x "books s" b] x n that by simp
  then show ?thesis
    by (simp add: insert_book_def Let_def split: sum.split)
qed

lemma filter_by_isbn_duplicate:
  assumes "i \<in> book_isbn ` set (books s)"
  shows "(\<exists>e. Book_filter_by_isbn_first s i = Inl e) \<or>
         (\<exists>x. Book_filter_by_isbn_first s i = Inr (Some x))"
proof -
  obtain x where x: "x \<in> set (books s)" "book_isbn x = i" using assms by auto
  have "find (\<lambda>b. text_affinity (book_isbn b) = text_affinity i) (books s) \<noteq> None"
    using x by (auto simp: find_None_iff)
  then show ?thesis by (auto simp: Book_filter_by_isbn_first_def)
qed

lemma create_book_duplicate:
  assumes "map_of d ''isbn'' = Some v" "v \<noteq> JNull" "v \<in> book_isbn ` set (books s)"
  shows "is_error (fst (create_book now (Some d) s)) \<and> snd (create_book now (Some d) s) = s"
proof -
  have ne: "d \<noteq> []" using assms(1) by auto
  have dg: "dict_get d ''isbn'' = v" using assms(1) by (simp add: dict_get_def)
  obtain e where ins: "insert_book now (dict_get d ''title'') (dict_get d ''author_id'')
      (dict_get d ''year'') v s = Inl e"
    using insert_book_duplicate [OF assms(2,3)] by blast
  show ?thesis
    using ne ins filter_by_isbn_duplicate [OF assms(3)]
    by (auto simp: create_book_def dg split: sum.split option.split)
qed

text \<open>
  C3. A create whose input repeats a value of a unique field already in the store is
  rejected and the store stays as it was, table for table and row for row: a POST on
  \<^verbatim>\<open>/add\<close> or \<^verbatim>\<open>/add-teacher\<close> with the email of an existing student or teacher raises
  (the handler has no check of its own; the insert is refused by the database), and a POST on
  \<^verbatim>\<open>/api/books\<close> with the isbn of an existing book fails, with a 400 answer or, for an
  isbn that Python reads as false, with the refused insert.
\<close>

theorem duplicate_unique_field_rejected:
  "(map_of frm ''email'' = Some e \<and> e \<in> student_email ` set (students sc) \<longrightarrow>
      raised (fst (add_student POST frm sc)) \<and> snd (add_student POST frm sc) = sc) \<and>
   (map_of frm ''email'' = Some e \<and> e \<in> teacher_email ` set (teachers sc) \<longrightarrow>
      raised (fst (add_teacher POST frm sc)) \<and> snd (add_teacher POST frm sc) = sc) \<and>
   (map_of d ''isbn'' = Some v \<and> v \<noteq> JNull \<and> v \<in> book_isbn ` set (books s) \<longrightarrow>
      is_error (fst (create_book now (Some d) s)) \<and> snd (create_book now (Some d) s) = s)"
proof -
  have a: "map_of frm ''email'' = Some e \<and> e \<in> student_email ` set (students sc) \<longrightarrow>
      raised (fst (add_student POST frm sc)) \<and> snd (add_student POST frm sc) = sc"
    by (rule impI, elim conjE, rule add_student_duplicate, assumption+)
  have b: "map_of frm ''email'' = Some e \<and> e \<in> teacher_email ` set (teachers sc) \<longrightarrow>
      raised (fst (add_teacher POST frm sc)) \<and> snd (add_teacher POST frm sc) = sc"
    by (rule impI, elim conjE, rule add_teacher_duplicate, assumption+)
  have c: "map_of d ''isbn'' = Some v \<and> v \<noteq> JNull \<and> v \<in> book_isbn ` set (books s) \<longrightarrow>
      is_error (fst (create_book now (Some d) s)) \<and> snd (create_book now (Some d) s) = s"
    by (rule impI, elim conjE, rule create_book_duplicate, assumption+)
  show ?thesis by (rule conjI [OF a conjI [OF b c]])
qed

theorem duplicate_unique_field_rejected_witness:
  "map_of [(''name'', ''Alice Jones''), (''email'', ''alice@student.com''), (''course_id'', ''1'')]
     ''email'' = Some ''alice@student.com'' \<and>
   ''alice@student.com'' \<in> student_email ` set (students example_school) \<and>
   add_student POST
     [(''name'', ''Alice Jones''), (''email'', ''alice@student.com''), (''course_id'', ''1'')]
     example_school = (Raised IntegrityError, example_school) \<and>
   map_of [(''name'', ''Sarah Lee''), (''email'', ''sarah@school.com''), (''course_id'', ''1'')]
     ''email'' = Some ''sarah@school.com'' \<and>
   ''sarah@school.com'' \<in> teacher_email ` set (teachers example_school) \<and>
   add_teacher POST
     [(''name'', ''Sarah Lee''), (''email'', ''sarah@school.com''), (''course_id'', ''1'')]
     example_school = (Raised IntegrityError, example_school) \<and>
   map_of [(''title'', JStr ''Nineteen Eighty-Four''), (''author_id'', JInt 2),
           (''isbn'', JStr ''978-0451524935'')] ''isbn'' = Some (JStr ''978-0451524935'') \<and>
   JStr ''978-0451524935'' \<in> book_isbn ` set (books example_db) \<and>
   create_book 5 (Some [(''title'', JStr ''Nineteen Eighty-Four''), (''author_id'', JInt 2),
                        (''isbn'', JStr ''978-0451524935'')]) example_db =
     (Returned (Response 400 (Failure ''ISBN already exists'')), example_db)"
  using duplicate_unique_field_rejected
    [of "[(''name'', ''Alice Jones''), (''email'', ''alice@student.com''), (''course_id'', ''1'')]"
        "''alice@student.com''" example_school
        "[(''title'', JStr ''Nineteen Eighty-Four''), (''author_id'', JInt 2),
          (''isbn'', JStr ''978-0451524935'')]"
        "JStr ''978-0451524935''" example_db 5]
    duplicate_unique_field_rejected
    [of "[(''name'', ''Sarah Lee''), (''email'', ''sarah@school.com''), (''course_id'', ''1'')]"
        "''sarah@school.com''" example_school
        "[(''title'', JStr ''Nineteen Eighty-Four''), (''author_id'', JInt 2),
          (''isbn'', JStr ''978-0451524935'')]"
        "JStr ''978-0451524935''" example_db 5]
  by (simp add: example_school_def example_defs add_student_def add_teacher_def
      insert_student_def insert_teacher_def create_book_def dict_get_def Author_query_get_def
      Book_filter_by_isbn_first_def)

section \<open>What a PUT does to its row\<close>

lemma flush_book_Inr:
  assumes "flush_book old new s = Inr (row, s')"
  shows "book_id_pk row = book_id_pk old \<and> book_created_at row = book_created_at old \<and>
         (book_title new = book_title old \<longrightarrow> book_title row = book_title old) \<and>
         (book_author_id new = book_author_id old \<longrightarrow> book_author_id row = book_author_id old) \<and>
         (book_year new = book_year old \<longrightarrow> book_year row = book_year old) \<and>
         (book_isbn new = book_isbn old \<longrightarrow> book_isbn row = book_isbn old) \<and>
         authors s' = authors s \<and>
         (row = old \<and> s' = s \<or>
          books s' = map (\<lambda>b. if book_id_pk b = book_id_pk old then row else b) (books s))"
  using assms
  by (auto simp: flush_book_def set_text_def set_integer_def Let_def
      split: if_splits sum.splits)

lemma flush_author_Inr:
  assumes "flush_author old new s = Inr (row, s')"
  shows "author_id_pk row = author_id_pk old \<and>
         (author_name new = author_name old \<longrightarrow> author_name row = author_name old) \<and>
         (author_bio new = author_bio old \<longrightarrow> author_bio row = author_bio old) \<and>
         (author_city new = author_city old \<longrightarrow> author_city row = author_city old) \<and>
         books s' = books s \<and>
         (row = old \<and> s' = s \<or>
          authors s' = map (\<lambda>a. if author_id_pk a = author_id_pk old then row else a) (authors s))"
  using assms
  by (auto simp: flush_author_def set_text_def Let_def split: if_splits)

lemma flush_book_authors: "flush_book old new s = Inr (row, s1) \<Longrightarrow> authors s1 = authors s"
  using flush_book_Inr by blast

lemma Author_query_get_cong:
  "authors s1 = authors s \<Longrightarrow> Author_query_get s1 v = Author_query_get s v"
  by (simp add: Author_query_get_def split: sum.split option.split)

lemma update_book_result:
  assumes q: "Book_query_get s k = Inr (Some book)"
  shows "(is_error (fst (update_book k (Some d) s)) \<and> snd (update_book k (Some d) s) = s) \<or>
         (\<exists>row s'. flush_book book (assigned_book d book) s = Inr (row, s') \<and>
            update_book k (Some d) s =
              (Returned (Response 200
                 (BookPayload ''Book updated successfully'' (Book_to_dict s' row))), s'))"
proof (cases "d = []")
  case True
  then show ?thesis using q by (simp add: update_book_def)
next
  case ne: False
  let ?b1 = "if has_key d ''title'' then book\<lparr>book_title := dict_get d ''title''\<rparr> else book"
  let ?fin = "\<lambda>b2. if has_key d ''isbn''
                    then (if has_key d ''year'' then b2\<lparr>book_year := dict_get d ''year''\<rparr> else b2)
                           \<lparr>book_isbn := dict_get d ''isbn''\<rparr>
                    else (if has_key d ''year'' then b2\<lparr>book_year := dict_get d ''year''\<rparr> else b2)"
  let ?commit = "\<lambda>b4. case flush_book book b4 s of
                   Inl e \<Rightarrow> (Raised e, s)
                 | Inr (row, s') \<Rightarrow>
                     (Returned (Response 200
                        (BookPayload ''Book updated successfully'' (Book_to_dict s' row))), s')"
  have leaf: "(is_error (fst (?commit b4)) \<and> snd (?commit b4) = s) \<or>
         (\<exists>row s'. flush_book book b4 s = Inr (row, s') \<and>
            ?commit b4 =
              (Returned (Response 200
                 (BookPayload ''Book updated successfully'' (Book_to_dict s' row))), s'))" for b4
    by (cases "flush_book book b4 s") auto
  show ?thesis
  proof (cases "has_key d ''author_id''")
    case False
    have obj: "?fin ?b1 = assigned_book d book"
      using False by (cases book) (simp add: assigned_book_def)
    have "update_book k (Some d) s = ?commit (?fin ?b1)"
      unfolding update_book_def Let_def using q ne False by (simp cong: sum.case_cong)
    then have "update_book k (Some d) s = ?commit (assigned_book d book)"
      by (simp only: obj)
    then show ?thesis using leaf [of "assigned_book d book"] by simp
  next
    case True
    show ?thesis
    proof (cases "flush_book book ?b1 s")
      case (Inl e)
      then show ?thesis using q ne True by (simp add: update_book_def Let_def)
    next
      case (Inr p)
      obtain row1 s1 where p: "p = (row1, s1)" by (cases p)
      have fl: "flush_book book ?b1 s = Inr (row1, s1)" using Inr p by simp
      have au: "Author_query_get s1 (dict_get d ''author_id'') =
                Author_query_get s (dict_get d ''author_id'')"
        by (rule Author_query_get_cong [OF flush_book_authors [OF fl]])
      show ?thesis
      proof (cases "Author_query_get s (dict_get d ''author_id'')")
        case (Inl e)
        then show ?thesis using q ne True fl au by (simp add: update_book_def Let_def)
      next
        case found: (Inr x)
        show ?thesis
        proof (cases x)
          case None
          then show ?thesis using q ne True fl au found by (simp add: update_book_def Let_def)
        next
          case (Some a)
          have obj: "?fin (?b1\<lparr>book_author_id := dict_get d ''author_id''\<rparr>) = assigned_book d book"
            using True by (cases book) (simp add: assigned_book_def)
          have "update_book k (Some d) s =
                ?commit (?fin (?b1\<lparr>book_author_id := dict_get d ''author_id''\<rparr>))"
            unfolding update_book_def Let_def using q ne True fl au found Some
            by (cases "has_key d ''title''") (simp_all cong: sum.case_cong)
          then have "update_book k (Some d) s = ?commit (assigned_book d book)"
            by (simp only: obj)
          then show ?thesis using leaf [of "assigned_book d book"] by simp
        qed
      qed
    qed
  qed
qed

lemma update_author_result:
  assumes q: "Author_query_get s (JInt k) = Inr (Some author)"
  shows "(is_error (fst (update_author k (Some d) s)) \<and> snd (update_author k (Some d) s) = s) \<or>
         (\<exists>row s'. flush_author author (assigned_author d author) s = Inr (row, s') \<and>
            update_author k (Some d) s =
              (Returned (Response 200
                 (AuthorPayload ''Author updated successfully'' (Author_to_dict s' row))), s'))"
proof (cases "d = []")
  case True
  then show ?thesis using q by (simp add: update_author_def)
next
  case ne: False
  let ?a3 = "if has_key d ''city''
             then (if has_key d ''bio''
                   then (if has_key d ''name'' then author\<lparr>author_name := dict_get d ''name''\<rparr> else author)
                          \<lparr>author_bio := dict_get d ''bio''\<rparr>
                   else (if has_key d ''name'' then author\<lparr>author_name := dict_get d ''name''\<rparr> else author))
                  \<lparr>author_city := dict_get d ''city''\<rparr>
             else (if has_key d ''bio''
                   then (if has_key d ''name'' then author\<lparr>author_name := dict_get d ''name''\<rparr> else author)
                          \<lparr>author_bio := dict_get d ''bio''\<rparr>
                   else (if has_key d ''name'' then author\<lparr>author_name := dict_get d ''name''\<rparr> else author))"
  let ?commit = "\<lambda>a3. case flush_author author a3 s of
                   Inl e \<Rightarrow> (Raised e, s)
                 | Inr (row, s') \<Rightarrow>
                     (Returned (Response 200
                        (AuthorPayload ''Author updated successfully'' (Author_to_dict s' row))), s')"
  have obj: "?a3 = assigned_author d author"
    by (cases author) (simp add: assigned_author_def)
  have "update_author k (Some d) s = ?commit ?a3"
    unfolding update_author_def Let_def using q ne by (simp cong: sum.case_cong)
  then have eq: "update_author k (Some d) s = ?commit (assigned_author d author)"
    by (simp only: obj)
  show ?thesis
    unfolding eq by (cases "flush_author author (assigned_author d author) s") auto
qed

section \<open>Updating a book against the constraints\<close>

lemma unique_isbnD:
  "unique_isbn s \<Longrightarrow> x \<in> set (books s) \<Longrightarrow> y \<in> set (books s) \<Longrightarrow>
   book_isbn x = book_isbn y \<Longrightarrow> book_isbn x \<noteq> JNull \<Longrightarrow> x = y"
proof -
  assume u: "unique_isbn s" and x: "x \<in> set (books s)" and y: "y \<in> set (books s)"
    and e: "book_isbn x = book_isbn y" and n: "book_isbn x \<noteq> JNull"
  have "distinct (map book_isbn (filter (\<lambda>b. book_isbn b \<noteq> JNull) (books s)))"
    using u by (simp add: unique_isbn_def filter_map comp_def)
  then have inj: "inj_on book_isbn (set (filter (\<lambda>b. book_isbn b \<noteq> JNull) (books s)))"
    by (simp add: distinct_map)
  have xin: "x \<in> set (filter (\<lambda>b. book_isbn b \<noteq> JNull) (books s))" using x n by simp
  have yin: "y \<in> set (filter (\<lambda>b. book_isbn b \<noteq> JNull) (books s))" using y n e by simp
  show "x = y" by (rule inj_onD [OF inj e xin yin])
qed

lemma update_book_unknown_author:
  assumes h: "has_key d ''author_id''"
    and n: "Author_query_get s (dict_get d ''author_id'') = Inr None \<or>
            Author_query_get s (dict_get d ''author_id'') = Inl OverflowError"
  shows "is_error (fst (update_book k (Some d) s)) \<and> snd (update_book k (Some d) s) = s"
proof (cases "Book_query_get s k")
  case (Inl e)
  then show ?thesis by (simp add: update_book_def)
next
  case (Inr x)
  show ?thesis
  proof (cases x)
    case None
    then show ?thesis using Inr by (simp add: update_book_def)
  next
    case (Some book)
    have q: "Book_query_get s k = Inr (Some book)" using Inr Some by simp
    have ne: "d \<noteq> []" using h by (auto simp: has_key_def)
    let ?b1 = "if has_key d ''title'' then book\<lparr>book_title := dict_get d ''title''\<rparr> else book"
    show ?thesis
    proof (cases "flush_book book ?b1 s")
      case (Inl e)
      then show ?thesis using q ne h by (simp add: update_book_def Let_def)
    next
      case (Inr p)
      obtain row1 s1 where p: "p = (row1, s1)" by (cases p)
      have fl: "flush_book book ?b1 s = Inr (row1, s1)" using Inr p by simp
      have au: "Author_query_get s1 (dict_get d ''author_id'') =
                Author_query_get s (dict_get d ''author_id'')"
        by (rule Author_query_get_cong [OF flush_book_authors [OF fl]])
      show ?thesis
        using n q ne h fl au by (auto simp: update_book_def Let_def)
    qed
  qed
qed

lemma flush_book_duplicate:
  assumes v: "v \<noteq> JNull" and new: "book_isbn new = v" and old: "book_isbn old \<noteq> v"
    and x: "x \<in> set (books s)" "book_id_pk x \<noteq> book_id_pk old" "book_isbn x = v"
  shows "\<exists>e. flush_book old new s = Inl e"
proof -
  have ne: "new \<noteq> old" using new old by auto
  have xin: "x \<in> set (filter (\<lambda>b. book_id_pk b \<noteq> book_id_pk old) (books s))"
    using x by simp
  have n: "text_affinity v \<noteq> JNull" using v by (simp add: text_affinity_null)
  have bad: "\<not> book_row_ok (filter (\<lambda>b. book_id_pk b \<noteq> book_id_pk old) (books s)) row"
    if "book_isbn row = text_affinity v" for row
    using book_row_ok_duplicate [OF xin, of row] x(3) n that by simp
  have st: "set_text (book_isbn old) (book_isbn new) = text_affinity v"
    using new old by (auto simp: set_text_def)
  show ?thesis
    using ne by (simp add: flush_book_def Let_def st bad split: sum.split)
qed

lemma update_book_duplicate_isbn:
  assumes u: "unique_isbn s" and v: "map_of d ''isbn'' = Some v" "v \<noteq> JNull"
    and o: "b \<in> set (books s)" "book_id_pk b \<noteq> k" "book_isbn b = v"
  shows "is_error (fst (update_book k (Some d) s)) \<and> snd (update_book k (Some d) s) = s"
proof (cases "Book_query_get s k")
  case (Inl e)
  then show ?thesis by (simp add: update_book_def)
next
  case (Inr x)
  show ?thesis
  proof (cases x)
    case None
    then show ?thesis using Inr by (simp add: update_book_def)
  next
    case (Some book)
    have q: "Book_query_get s k = Inr (Some book)" using Inr Some by simp
    have bk: "book_id_pk book = k" "book \<in> set (books s)"
      using Book_query_get_Some [OF q] by simp_all
    have neq: "book_isbn book \<noteq> v"
      using unique_isbnD [OF u bk(2) o(1)] o bk v(2) by auto
    have new: "book_isbn (assigned_book d book) = v"
      using v(1) by (simp add: assigned_book_def has_key_def dict_get_def)
    have idn: "book_id_pk b \<noteq> book_id_pk book" using o(2) bk(1) by simp
    obtain e where "flush_book book (assigned_book d book) s = Inl e"
      using flush_book_duplicate [OF v(2) new neq o(1) idn o(3)] by blast
    then show ?thesis using update_book_result [OF q, of d] by auto
  qed
qed

text \<open>
  C4. A PUT on \<^verbatim>\<open>/api/books/<id>\<close> does not persist an update that breaks a constraint.
  When the body names an author_id for which the lookup finds no Author, or which is an
  integer beyond 64 bits that the lookup cannot bind, the request fails and the store is
  unchanged (400 ``Author not found'' from the handler's own check, or the uncaught
  \<open>OverflowError\<close>). When the body names an isbn that another Book holds, in a store that
  satisfies the unique constraint on isbn, the request fails and the store is unchanged:
  the handler has no check of its own here, the database refuses the UPDATE at the commit
  and the exception is not caught.
\<close>

theorem update_book_revalidates:
  "(has_key d ''author_id'' \<and>
    (Author_query_get s (dict_get d ''author_id'') = Inr None \<or>
     Author_query_get s (dict_get d ''author_id'') = Inl OverflowError) \<longrightarrow>
      is_error (fst (update_book k (Some d) s)) \<and> snd (update_book k (Some d) s) = s) \<and>
   (unique_isbn s \<and> map_of d ''isbn'' = Some v \<and> v \<noteq> JNull \<and>
    b \<in> set (books s) \<and> book_id_pk b \<noteq> k \<and> book_isbn b = v \<longrightarrow>
      is_error (fst (update_book k (Some d) s)) \<and> snd (update_book k (Some d) s) = s)"
proof -
  have a: "has_key d ''author_id'' \<and>
      (Author_query_get s (dict_get d ''author_id'') = Inr None \<or>
       Author_query_get s (dict_get d ''author_id'') = Inl OverflowError) \<longrightarrow>
      is_error (fst (update_book k (Some d) s)) \<and> snd (update_book k (Some d) s) = s"
    by (rule impI, elim conjE, rule update_book_unknown_author, assumption+)
  have b: "unique_isbn s \<and> map_of d ''isbn'' = Some v \<and> v \<noteq> JNull \<and>
      b \<in> set (books s) \<and> book_id_pk b \<noteq> k \<and> book_isbn b = v \<longrightarrow>
      is_error (fst (update_book k (Some d) s)) \<and> snd (update_book k (Some d) s) = s"
    by (rule impI, elim conjE, rule update_book_duplicate_isbn, assumption+)
  show ?thesis by (rule conjI [OF a b])
qed

theorem update_book_revalidates_witness:
  "has_key [(''author_id'', JInt 9999)] ''author_id'' \<and>
   Author_query_get example_db (dict_get [(''author_id'', JInt 9999)] ''author_id'') = Inr None \<and>
   update_book 2 (Some [(''author_id'', JInt 9999)]) example_db =
     (Returned (Response 400 (Failure ''Author not found'')), example_db) \<and>
   unique_isbn example_db \<and>
   map_of [(''isbn'', JStr ''978-1593279288'')] ''isbn'' = Some (JStr ''978-1593279288'') \<and>
   book_crash_course \<in> set (books example_db) \<and> book_id_pk book_crash_course \<noteq> 2 \<and>
   book_isbn book_crash_course = JStr ''978-1593279288'' \<and>
   update_book 2 (Some [(''isbn'', JStr ''978-1593279288'')]) example_db =
     (Raised IntegrityError, example_db)"
  using update_book_revalidates
      [of "[(''author_id'', JInt 9999)]" example_db 2 "JStr ''978-1593279288''" book_crash_course]
    update_book_revalidates
      [of "[(''isbn'', JStr ''978-1593279288'')]" example_db 2 "JStr ''978-1593279288''"
          book_crash_course]
  by (simp add: example_defs unique_isbn_def has_key_def dict_get_def Author_query_get_def
      int64_def update_book_def Book_query_get_def flush_book_def set_text_def
      set_integer_def book_row_ok_def)

section \<open>Updates change the named fields only\<close>

lemma find_replace_same:
  "f new = k \<Longrightarrow>
   find (\<lambda>x. f x = k) (map (\<lambda>x. if f x = k then new else x) xs) =
   map_option (\<lambda>_. new) (find (\<lambda>x. f x = k) xs)"
  by (induction xs) simp_all

lemma filter_replace_other:
  "f new = k \<Longrightarrow>
   filter (\<lambda>x. f x \<noteq> k) (map (\<lambda>x. if f x = k then new else x) xs) =
   filter (\<lambda>x. f x \<noteq> k) xs"
  by (induction xs) simp_all

lemma assigned_book_keeps: "book_keeps_absent_fields d b (assigned_book d b)"
  by (simp add: book_keeps_absent_fields_def assigned_book_def)

lemma assigned_author_keeps: "author_keeps_absent_fields d a (assigned_author d a)"
  by (simp add: author_keeps_absent_fields_def assigned_author_def)

lemma flush_book_keeps:
  assumes "flush_book b (assigned_book d b) s = Inr (row, s')"
  shows "book_keeps_absent_fields d b row"
  using flush_book_Inr [OF assms]
  by (simp add: book_keeps_absent_fields_def assigned_book_def)

lemma flush_author_keeps:
  assumes "flush_author a (assigned_author d a) s = Inr (row, s')"
  shows "author_keeps_absent_fields d a row"
  using flush_author_Inr [OF assms]
  by (simp add: author_keeps_absent_fields_def assigned_author_def)

lemma update_book_frame:
  assumes q: "Book_query_get s k = Inr (Some b)"
  shows "(\<exists>b'. Book_query_get (snd (update_book k (Some d) s)) k = Inr (Some b') \<and>
               book_keeps_absent_fields d b b') \<and>
         filter (\<lambda>x. book_id_pk x \<noteq> k) (books (snd (update_book k (Some d) s))) =
           filter (\<lambda>x. book_id_pk x \<noteq> k) (books s) \<and>
         authors (snd (update_book k (Some d) s)) = authors s"
proof -
  have idk: "book_id_pk b = k" using Book_query_get_Some [OF q] by simp
  have same: "book_keeps_absent_fields d b b" by (simp add: book_keeps_absent_fields_def)
  have unchanged: ?thesis if "snd (update_book k (Some d) s) = s"
    using that q same by auto
  from update_book_result [OF q, of d] show ?thesis
  proof
    assume "is_error (fst (update_book k (Some d) s)) \<and> snd (update_book k (Some d) s) = s"
    then show ?thesis using unchanged by simp
  next
    assume "\<exists>row s'. flush_book b (assigned_book d b) s = Inr (row, s') \<and>
            update_book k (Some d) s =
              (Returned (Response 200
                 (BookPayload ''Book updated successfully'' (Book_to_dict s' row))), s')"
    then obtain row s' where fl: "flush_book b (assigned_book d b) s = Inr (row, s')"
      and s': "snd (update_book k (Some d) s) = s'" by auto
    have keeps: "book_keeps_absent_fields d b row" by (rule flush_book_keeps [OF fl])
    have idr: "book_id_pk row = k" using flush_book_Inr [OF fl] idk by simp
    have au: "authors s' = authors s" using flush_book_Inr [OF fl] by simp
    have "row = b \<and> s' = s \<or>
          books s' = map (\<lambda>x. if book_id_pk x = book_id_pk b then row else x) (books s)"
      using flush_book_Inr [OF fl] by simp
    then show ?thesis
    proof
      assume "row = b \<and> s' = s"
      then show ?thesis using unchanged s' by simp
    next
      assume upd: "books s' = map (\<lambda>x. if book_id_pk x = book_id_pk b then row else x) (books s)"
      have "find (\<lambda>x. book_id_pk x = k) (books s) = Some b"
        using q by (simp add: Book_query_get_find)
      then have "find (\<lambda>x. book_id_pk x = k) (books s') = Some row"
        by (simp add: upd idk find_replace_same [of book_id_pk row k, OF idr])
      then have "Book_query_get s' k = Inr (Some row)" by (simp add: Book_query_get_find)
      moreover have "filter (\<lambda>x. book_id_pk x \<noteq> k) (books s') =
           filter (\<lambda>x. book_id_pk x \<noteq> k) (books s)"
        by (simp add: upd idk filter_replace_other [of book_id_pk row k, OF idr])
      ultimately show ?thesis using keeps au s' by auto
    qed
  qed
qed

lemma update_author_frame:
  assumes q: "Author_query_get s (JInt k) = Inr (Some a)"
  shows "(\<exists>a'. Author_query_get (snd (update_author k (Some d) s)) (JInt k) = Inr (Some a') \<and>
               author_keeps_absent_fields d a a') \<and>
         filter (\<lambda>x. author_id_pk x \<noteq> k) (authors (snd (update_author k (Some d) s))) =
           filter (\<lambda>x. author_id_pk x \<noteq> k) (authors s) \<and>
         books (snd (update_author k (Some d) s)) = books s"
proof -
  have idk: "author_id_pk a = k" using Author_query_get_Some [OF q] by simp
  have same: "author_keeps_absent_fields d a a" by (simp add: author_keeps_absent_fields_def)
  have unchanged: ?thesis if "snd (update_author k (Some d) s) = s"
    using that q same by auto
  from update_author_result [OF q, of d] show ?thesis
  proof
    assume "is_error (fst (update_author k (Some d) s)) \<and> snd (update_author k (Some d) s) = s"
    then show ?thesis using unchanged by simp
  next
    assume "\<exists>row s'. flush_author a (assigned_author d a) s = Inr (row, s') \<and>
            update_author k (Some d) s =
              (Returned (Response 200
                 (AuthorPayload ''Author updated successfully'' (Author_to_dict s' row))), s')"
    then obtain row s' where fl: "flush_author a (assigned_author d a) s = Inr (row, s')"
      and s': "snd (update_author k (Some d) s) = s'" by auto
    have keeps: "author_keeps_absent_fields d a row" by (rule flush_author_keeps [OF fl])
    have idr: "author_id_pk row = k" using flush_author_Inr [OF fl] idk by simp
    have bo: "books s' = books s" using flush_author_Inr [OF fl] by simp
    have "row = a \<and> s' = s \<or>
          authors s' = map (\<lambda>x. if author_id_pk x = author_id_pk a then row else x) (authors s)"
      using flush_author_Inr [OF fl] by simp
    then show ?thesis
    proof
      assume "row = a \<and> s' = s"
      then show ?thesis using unchanged s' by simp
    next
      assume upd: "authors s' =
        map (\<lambda>x. if author_id_pk x = author_id_pk a then row else x) (authors s)"
      have "find (\<lambda>x. author_id_pk x = k) (authors s) = Some a"
        using q by (simp add: Author_query_get_find)
      then have "find (\<lambda>x. author_id_pk x = k) (authors s') = Some row"
        by (simp add: upd idk find_replace_same [of author_id_pk row k, OF idr])
      then have "Author_query_get s' (JInt k) = Inr (Some row)"
        by (simp add: Author_query_get_find)
      moreover have "filter (\<lambda>x. author_id_pk x \<noteq> k) (authors s') =
           filter (\<lambda>x. author_id_pk x \<noteq> k) (authors s)"
        by (simp add: upd idk filter_replace_other [of author_id_pk row k, OF idr])
      ultimately show ?thesis using keeps bo s' by auto
    qed
  qed
qed

text \<open>
  C7. After a PUT on \<^verbatim>\<open>/api/books/<id>\<close> or \<^verbatim>\<open>/api/authors/<id>\<close> for an existing row,
  whatever the outcome, the row is still found under its key with every field that the body
  does not name at its previous value (the key and \<open>created_at\<close> included), the rows with
  other keys are what they were, and the other table is untouched.
\<close>

theorem update_changes_named_fields_only:
  "(Book_query_get s k = Inr (Some b) \<longrightarrow>
      (\<exists>b'. Book_query_get (snd (update_book k (Some d) s)) k = Inr (Some b') \<and>
            book_keeps_absent_fields d b b') \<and>
      filter (\<lambda>x. book_id_pk x \<noteq> k) (books (snd (update_book k (Some d) s))) =
        filter (\<lambda>x. book_id_pk x \<noteq> k) (books s) \<and>
      authors (snd (update_book k (Some d) s)) = authors s) \<and>
   (Author_query_get s (JInt k) = Inr (Some a) \<longrightarrow>
      (\<exists>a'. Author_query_get (snd (update_author k (Some d) s)) (JInt k) = Inr (Some a') \<and>
            author_keeps_absent_fields d a a') \<and>
      filter (\<lambda>x. author_id_pk x \<noteq> k) (authors (snd (update_author k (Some d) s))) =
        filter (\<lambda>x. author_id_pk x \<noteq> k) (authors s) \<and>
      books (snd (update_author k (Some d) s)) = books s)"
  by (rule conjI; rule impI) (rule update_book_frame, assumption, rule update_author_frame, assumption)

theorem update_changes_named_fields_only_witness:
  "Book_query_get example_db 2 = Inr (Some book_1984) \<and>
   update_book 2 (Some [(''year'', JInt 1950)]) example_db =
     (Returned (Response 200 (BookPayload ''Book updated successfully''
        \<lparr>bd_id = 2, bd_title = JStr ''1984'', bd_author_id = JInt 2,
         bd_author_name = JStr ''George Orwell'', bd_year = JInt 1950,
         bd_isbn = JStr ''978-0451524935'', bd_created_at = 100\<rparr>)),
      \<lparr>authors = [author_matthes, author_orwell],
       books = [book_crash_course, book_1984\<lparr>book_year := JInt 1950\<rparr>, book_animal_farm]\<rparr>) \<and>
   book_keeps_absent_fields [(''year'', JInt 1950)] book_1984 (book_1984\<lparr>book_year := JInt 1950\<rparr>) \<and>
   Author_query_get example_db (JInt 2) = Inr (Some author_orwell) \<and>
   update_author 2 (Some [(''city'', JStr ''Motihari'')]) example_db =
     (Returned (Response 200 (AuthorPayload ''Author updated successfully''
        \<lparr>ad_id = 2, ad_name = JStr ''George Orwell'',
         ad_bio = JStr ''English novelist and essayist'', ad_city = JStr ''Motihari'',
         ad_books_count = 2\<rparr>)),
      \<lparr>authors = [author_matthes, author_orwell\<lparr>author_city := JStr ''Motihari''\<rparr>],
       books = [book_crash_course, book_1984, book_animal_farm]\<rparr>) \<and>
   author_keeps_absent_fields [(''city'', JStr ''Motihari'')] author_orwell
     (author_orwell\<lparr>author_city := JStr ''Motihari''\<rparr>)"
  using update_changes_named_fields_only
    [of example_db 2 book_1984 "[(''year'', JInt 1950)]" author_orwell]
    update_changes_named_fields_only
    [of example_db 2 book_1984 "[(''city'', JStr ''Motihari'')]" author_orwell]
  by (simp add: example_defs update_book_def update_author_def Book_query_get_def
      Author_query_get_def int64_def has_key_def dict_get_def flush_book_def flush_author_def
      set_text_def set_integer_def book_row_ok_def author_row_ok_def Book_to_dict_def
      Author_to_dict_def author_books_def book_keeps_absent_fields_def
      author_keeps_absent_fields_def)

section \<open>Creating a row\<close>

lemma next_id_fresh: "next_id ks \<notin> set ks"
proof
  assume a: "next_id ks \<in> set ks"
  then have ne: "ks \<noteq> []" by auto
  then have "next_id ks = Max (set ks) + 1" by (simp add: next_id_def)
  moreover have "next_id ks \<le> Max (set ks)" using a by (intro Max_ge) simp_all
  ultimately show False by simp
qed










section \<open>The book list: sorting and pages\<close>

lemma get_books_eq:
  "get_books args s =
     (Returned (Response 200 (BooksPayload
        \<lparr>bp_count = pg_total (paginate (books_query args s) (args_get (arg_page args) 1) (args_get (arg_per_page args) 10)),
         bp_page = pg_page (paginate (books_query args s) (args_get (arg_page args) 1) (args_get (arg_per_page args) 10)),
         bp_pages = pg_pages (paginate (books_query args s) (args_get (arg_page args) 1) (args_get (arg_per_page args) 10)),
         bp_per_page = args_get (arg_per_page args) 10,
         bp_has_next = pg_has_next (paginate (books_query args s) (args_get (arg_page args) 1) (args_get (arg_per_page args) 10)),
         bp_has_prev = pg_has_prev (paginate (books_query args s) (args_get (arg_page args) 1) (args_get (arg_per_page args) 10)),
         bp_books = map (Book_to_dict s) (pg_items (paginate (books_query args s) (args_get (arg_page args) 1) (args_get (arg_per_page args) 10)))\<rparr>)), s)"
  unfolding get_books_def books_query_def Let_def by (rule refl)

lemma length_order_by: "length (order_by col asc rows) = length rows"
  by (simp add: order_by_def)

lemma length_books_query: "length (books_query args s) = length (books s)"
  by (simp add: books_query_def Let_def length_order_by)

lemma paginate_pages:
  "1 \<le> p \<Longrightarrow> pg_pages (paginate rows page p) = \<lceil>real (length rows) / real_of_int p\<rceil>"
  by (simp add: paginate_def Let_def)

lemma paginate_beyond:
  assumes p: "1 \<le> p" and beyond: "pg_pages (paginate rows page p) < page"
  shows "pg_items (paginate rows page p) = []"
proof -
  have c: "\<lceil>real (length rows) / real_of_int p\<rceil> \<le> page - 1"
    using beyond paginate_pages [OF p, of rows page] by simp
  have "0 \<le> real (length rows) / real_of_int p" using p by simp
  then have "0 \<le> \<lceil>real (length rows) / real_of_int p\<rceil>"
    by (simp add: zero_le_ceiling)
  then have page1: "1 \<le> page" using c by linarith
  have "real (length rows) / real_of_int p \<le> of_int (page - 1)"
    using c by (simp only: ceiling_le_iff)
  then have "real (length rows) \<le> of_int (page - 1) * of_int p"
    using p by (simp add: pos_divide_le_eq)
  then have "real_of_int (int (length rows)) \<le> of_int ((page - 1) * p)"
    by simp
  then have "int (length rows) \<le> (page - 1) * p"
    by (simp only: of_int_le_iff)
  then have "length rows \<le> nat ((page - 1) * p)" by simp
  then show ?thesis using p page1 by (simp add: paginate_def Let_def)
qed



lemma paginate_pages_div:
  "1 \<le> p \<Longrightarrow> pg_pages (paginate rows page p) = - (- int (length rows) div p)"
  using ceiling_divide_eq_div [of "int (length rows)" p] by (simp add: paginate_pages)


lemma paginate_items:
  "\<exists>n m. pg_items (paginate rows page p) = take n (drop m rows)"
proof -
  have "pg_items (paginate rows page p) =
      take (nat (if p < 1 then 20 else p))
        (drop (nat (((if page < 1 then 1 else page) - 1) * (if p < 1 then 20 else p))) rows)"
    by (simp add: paginate_def Let_def)
  then show ?thesis by (intro exI)
qed

lemma page_of_sorted_asc:
  "sorted (map f (take n (drop m (sort_key f xs))))"
proof -
  have "sorted (take n (drop m (map f (sort_key f xs))))"
    by (intro sorted_wrt_take sorted_wrt_drop sorted_sort_key)
  then show ?thesis by (simp add: take_map drop_map)
qed

lemma page_of_sorted_desc:
  "sorted (rev (map f (take n (drop m (rev (sort_key f xs))))))"
proof -
  have "sorted_wrt (\<lambda>x y. y \<le> x) (rev (map f (sort_key f xs)))"
    by (simp add: sorted_wrt_rev)
  then have "sorted_wrt (\<lambda>x y. y \<le> x) (take n (drop m (rev (map f (sort_key f xs)))))"
    by (intro sorted_wrt_take sorted_wrt_drop)
  then have "sorted_wrt (\<lambda>x y. y \<le> x) (map f (take n (drop m (rev (sort_key f xs)))))"
    by (simp add: take_map drop_map rev_map)
  then show ?thesis by (simp add: sorted_wrt_rev)
qed

lemma books_query_fallback:
  "args_get (arg_sort args) ''id'' \<notin> set allowed_sort_fields \<Longrightarrow>
   books_query args s = order_by book_id_pk (args_get (arg_order args) ''asc'' = ''asc'') (books s)"
  by (simp add: books_query_def Let_def)

lemma bd_id_Book_to_dict: "map bd_id (map (Book_to_dict s) bs) = map book_id_pk bs"
  by (simp add: Book_to_dict_def comp_def)

text \<open>
  C5. For a page size p \<ge> 1 (the \<open>per_page\<close> parameter, 10 when absent) and n Book rows,
  \<^verbatim>\<open>GET /api/books\<close> answers 200 with \<open>count\<close> n and \<open>pages\<close> equal to the ceiling of
  n/p, which is \<open>- (- n div p)\<close> in integers; and when the requested page is beyond that
  count, the answer is still the 200 page, with an empty \<open>books\<close> list.
\<close>

theorem pagination_page_count:
  "1 \<le> args_get (arg_per_page args) 10 \<Longrightarrow>
   (\<exists>pg. get_books args s = (Returned (Response 200 (BooksPayload pg)), s) \<and>
      bp_count pg = length (books s) \<and>
      bp_pages pg = \<lceil>real (length (books s)) / real_of_int (args_get (arg_per_page args) 10)\<rceil> \<and>
      bp_pages pg = - (- int (length (books s)) div args_get (arg_per_page args) 10) \<and>
      (bp_pages pg < args_get (arg_page args) 1 \<longrightarrow> bp_books pg = []))"
proof -
  assume p: "1 \<le> args_get (arg_per_page args) 10"
  let ?P = "paginate (books_query args s) (args_get (arg_page args) 1) (args_get (arg_per_page args) 10)"
  have 1: "pg_total ?P = length (books s)"
    by (simp add: paginate_def Let_def length_books_query)
  have 2: "pg_pages ?P = \<lceil>real (length (books s)) / real_of_int (args_get (arg_per_page args) 10)\<rceil>"
    using paginate_pages [OF p, of "books_query args s" "args_get (arg_page args) 1"]
    by (simp add: length_books_query)
  have 3: "pg_pages ?P = - (- int (length (books s)) div args_get (arg_per_page args) 10)"
    using paginate_pages_div [OF p, of "books_query args s" "args_get (arg_page args) 1"]
    by (simp add: length_books_query)
  have 4: "pg_pages ?P < args_get (arg_page args) 1 \<longrightarrow> map (Book_to_dict s) (pg_items ?P) = []"
    using paginate_beyond [OF p, of "books_query args s" "args_get (arg_page args) 1"] by simp
  show ?thesis
    unfolding get_books_eq using 1 2 3 4 by simp
qed

theorem pagination_page_count_witness:
  "1 \<le> args_get (Some 2) (10 :: int) \<and>
   get_books \<lparr>arg_page = Some 3, arg_per_page = Some 2, arg_sort = None, arg_order = None\<rparr>
     example_db =
     (Returned (Response 200 (BooksPayload
        \<lparr>bp_count = 3, bp_page = 3, bp_pages = 2, bp_per_page = 2, bp_has_next = False,
         bp_has_prev = True, bp_books = []\<rparr>)), example_db)"
  using pagination_page_count
    [of "\<lparr>arg_page = Some 3, arg_per_page = Some 2, arg_sort = None, arg_order = None\<rparr>"
        example_db]
  by (simp add: args_get_def get_books_def allowed_sort_fields_def order_by_def paginate_def
      Let_def example_defs)

text \<open>
  C6 as stated fails when the request also says \<^verbatim>\<open>order=desc\<close>: the fallback sorts by id,
  in the direction the \<open>order\<close> parameter gives.
\<close>

theorem unknown_sort_descending_counterexample:
  "''rating'' \<notin> set allowed_sort_fields \<and>
   map bd_id (returned_books (fst (get_books
     \<lparr>arg_page = None, arg_per_page = None, arg_sort = Some ''rating'', arg_order = Some ''desc''\<rparr>
     example_db))) = [3, 2, 1] \<and>
   \<not> sorted [3, 2, 1 :: int]"
  by (simp add: args_get_def get_books_def allowed_sort_fields_def order_by_def paginate_def
      Let_def example_defs Book_to_dict_def)

text \<open>
  C6, amended. When the \<open>sort\<close> parameter is not one of id, title, year, created_at, the
  books returned are the requested page of the table sorted by id: ascending when \<open>order\<close>
  is \<^verbatim>\<open>asc\<close> or absent, descending for any other value of \<open>order\<close>. The list is a
  function of the request and the store.
\<close>

theorem unknown_sort_falls_back_to_id:
  "args_get (arg_sort args) ''id'' \<notin> set allowed_sort_fields \<Longrightarrow>
   (\<exists>pg. get_books args s = (Returned (Response 200 (BooksPayload pg)), s) \<and>
      bp_books pg = map (Book_to_dict s) (pg_items (paginate
        (order_by book_id_pk (args_get (arg_order args) ''asc'' = ''asc'') (books s))
        (args_get (arg_page args) 1) (args_get (arg_per_page args) 10))) \<and>
      (args_get (arg_order args) ''asc'' = ''asc'' \<longrightarrow> sorted (map bd_id (bp_books pg))) \<and>
      (args_get (arg_order args) ''asc'' \<noteq> ''asc'' \<longrightarrow> sorted (rev (map bd_id (bp_books pg)))))"
proof -
  assume u: "args_get (arg_sort args) ''id'' \<notin> set allowed_sort_fields"
  let ?asc = "args_get (arg_order args) ''asc'' = ''asc''"
  let ?P = "paginate (order_by book_id_pk ?asc (books s))
              (args_get (arg_page args) 1) (args_get (arg_per_page args) 10)"
  obtain n m where nm: "pg_items ?P = take n (drop m (order_by book_id_pk ?asc (books s)))"
    using paginate_items by blast
  have a: "?asc \<longrightarrow> sorted (map bd_id (map (Book_to_dict s) (pg_items ?P)))"
    unfolding bd_id_Book_to_dict nm by (simp add: order_by_def page_of_sorted_asc)
  have d: "\<not> ?asc \<longrightarrow> sorted (rev (map bd_id (map (Book_to_dict s) (pg_items ?P))))"
    unfolding bd_id_Book_to_dict nm by (simp add: order_by_def page_of_sorted_desc)
  show ?thesis
    unfolding get_books_eq books_query_fallback [OF u] using a d by simp
qed

theorem unknown_sort_falls_back_to_id_witness:
  "args_get (Some ''rating'') ''id'' \<notin> set allowed_sort_fields \<and>
   map bd_id (returned_books (fst (get_books
     \<lparr>arg_page = None, arg_per_page = Some 2, arg_sort = Some ''rating'', arg_order = None\<rparr>
     \<lparr>authors = [author_matthes, author_orwell],
      books = [book_animal_farm, book_crash_course, book_1984]\<rparr>))) = [1, 2] \<and>
   map bd_id (returned_books (fst (get_books
     \<lparr>arg_page = None, arg_per_page = Some 2, arg_sort = Some ''rating'', arg_order = Some ''desc''\<rparr>
     \<lparr>authors = [author_matthes, author_orwell],
      books = [book_animal_farm, book_crash_course, book_1984]\<rparr>))) = [3, 2]"
  using unknown_sort_falls_back_to_id
    [of "\<lparr>arg_page = None, arg_per_page = Some 2, arg_sort = Some ''rating'', arg_order = None\<rparr>"
        "\<lparr>authors = [author_matthes, author_orwell],
          books = [book_animal_farm, book_crash_course, book_1984]\<rparr>"]
  by (simp add: args_get_def get_books_def allowed_sort_fields_def order_by_def paginate_def
      Let_def example_defs Book_to_dict_def)

section \<open>The handlers keep the constraints\<close>

text \<open>
  Distinct keys and distinct isbns are an invariant: every handler of part 4 leaves a store
  that satisfies them when it found one, so the stores the handlers meet are the stores
  with \<open>store_ok\<close>.
\<close>

lemma row_ok_fresh_isbn:
  assumes ok: "book_row_ok others b" and tx: "text_affinity (book_isbn b) = book_isbn b"
    and n: "book_isbn b \<noteq> JNull" and x: "x \<in> set others"
  shows "book_isbn x \<noteq> book_isbn b"
proof
  assume e: "book_isbn x = book_isbn b"
  have "text_affinity (book_isbn x) \<noteq> book_isbn b"
    using ok n x by (auto simp: book_row_ok_def list_all_iff)
  then show False using e tx by simp
qed

lemma unique_isbn_append:
  assumes u: "unique_isbn s" and ok: "book_row_ok (books s) b"
    and tx: "text_affinity (book_isbn b) = book_isbn b"
  shows "unique_isbn (s\<lparr>books := books s @ [b]\<rparr>)"
proof (cases "book_isbn b = JNull")
  case True
  then show ?thesis using u by (simp add: unique_isbn_def)
next
  case False
  have "book_isbn b \<notin> book_isbn ` set (books s)"
    using row_ok_fresh_isbn [OF ok tx False] by force
  then show ?thesis using u False by (simp add: unique_isbn_def)
qed

lemma insert_book_store_ok:
  assumes "store_ok s" "insert_book now t a y i s = Inr (b, s')"
  shows "store_ok s'"
proof -
  have ok: "book_row_ok (books s) b" and s': "s' = s\<lparr>books := books s @ [b]\<rparr>"
    and idb: "book_id_pk b = next_id (map book_id_pk (books s))"
    and isbn: "book_isbn b = text_affinity i"
    using assms(2) by (auto simp: insert_book_def Let_def split: if_splits sum.splits)
  have tx: "text_affinity (book_isbn b) = book_isbn b"
    by (simp add: isbn text_affinity_idem)
  have "distinct (map book_id_pk (books s'))"
    using assms(1) next_id_fresh [of "map book_id_pk (books s)"]
    by (simp add: s' idb store_ok_def)
  moreover have "unique_isbn s'"
    using assms(1) unique_isbn_append [OF _ ok tx] by (simp add: s' store_ok_def)
  ultimately show ?thesis by (simp add: store_ok_def)
qed

lemma replace_distinct_key:
  assumes "distinct (map f xs)" "old \<in> set xs"
  shows "\<exists>us vs. xs = us @ old # vs \<and> f old \<notin> f ` set us \<and> f old \<notin> f ` set vs \<and>
           map (\<lambda>x. if f x = f old then new else x) xs = us @ new # vs \<and>
           filter (\<lambda>x. f x \<noteq> f old) xs = us @ vs"
proof -
  obtain us vs where xs: "xs = us @ old # vs" using assms(2) by (auto simp: in_set_conv_decomp)
  have nu: "f old \<notin> f ` set us" and nv: "f old \<notin> f ` set vs"
    using assms(1) by (auto simp: xs)
  have mu: "map (\<lambda>x. if f x = f old then new else x) us = us"
    using nu by (induction us) auto
  have mv: "map (\<lambda>x. if f x = f old then new else x) vs = vs"
    using nv by (induction vs) auto
  have fu: "filter (\<lambda>x. f x \<noteq> f old) us = us" using nu by (induction us) auto
  have fv: "filter (\<lambda>x. f x \<noteq> f old) vs = vs" using nv by (induction vs) auto
  show ?thesis using xs nu nv mu mv fu fv by (intro exI [of _ us] exI [of _ vs]) simp
qed

lemma flush_book_row:
  assumes "flush_book old new s = Inr (row, s')" "new \<noteq> old"
  shows "book_row_ok (filter (\<lambda>b. book_id_pk b \<noteq> book_id_pk old) (books s)) row \<and>
         book_isbn row = set_text (book_isbn old) (book_isbn new) \<and>
         book_id_pk row = book_id_pk old \<and>
         books s' = map (\<lambda>b. if book_id_pk b = book_id_pk old then row else b) (books s)"
  using assms
  by (auto simp: flush_book_def Let_def split: if_splits sum.splits)

lemma flush_book_store_ok:
  assumes ok: "store_ok s" and old: "old \<in> set (books s)"
    and fl: "flush_book old new s = Inr (row, s')"
  shows "store_ok s'"
proof (cases "new = old")
  case True
  then show ?thesis using fl ok by (simp add: flush_book_def)
next
  case False
  let ?k = "book_id_pk old"
  note r = flush_book_row [OF fl False]
  have rok: "book_row_ok (filter (\<lambda>b. book_id_pk b \<noteq> ?k) (books s)) row"
    and isbn: "book_isbn row = set_text (book_isbn old) (book_isbn new)"
    and idr: "book_id_pk row = ?k"
    and bs: "books s' = map (\<lambda>b. if book_id_pk b = ?k then row else b) (books s)"
    using r by simp_all
  have d: "distinct (map book_id_pk (books s))" using ok by (simp add: store_ok_def)
  obtain us vs where xs: "books s = us @ old # vs"
    and nu: "?k \<notin> book_id_pk ` set us" and nv: "?k \<notin> book_id_pk ` set vs"
    and m: "map (\<lambda>b. if book_id_pk b = ?k then row else b) (books s) = us @ row # vs"
    and f: "filter (\<lambda>b. book_id_pk b \<noteq> ?k) (books s) = us @ vs"
    using replace_distinct_key [OF d old, of row] by blast
  have bs': "books s' = us @ row # vs" by (simp add: bs m)
  have rok': "book_row_ok (us @ vs) row" using rok by (simp only: f)
  have u: "unique_isbn s" using ok by (simp add: store_ok_def)
  have "distinct (map book_id_pk (books s'))"
    using d by (simp add: bs' xs idr)
  moreover have "unique_isbn s'"
  proof -
    have uv: "distinct (filter (\<lambda>v. v \<noteq> JNull) (map book_isbn (us @ vs)))"
      using u by (auto simp: xs unique_isbn_def split: if_splits)
    have fresh: "book_isbn x \<noteq> book_isbn row"
      if n: "book_isbn row \<noteq> JNull" and x: "x \<in> set (us @ vs)" for x
    proof (cases "book_isbn new = book_isbn old")
      case True
      then have e: "book_isbn row = book_isbn old" by (simp add: isbn set_text_def)
      have notin: "book_isbn old \<notin> book_isbn ` set (us @ vs)"
        using u n e by (auto simp: xs unique_isbn_def split: if_splits)
      show ?thesis
      proof
        assume "book_isbn x = book_isbn row"
        then have "book_isbn old = book_isbn x" using e by simp
        then have "book_isbn old \<in> book_isbn ` set (us @ vs)" using x by (rule image_eqI)
        then show False using notin by simp
      qed
    next
      case False
      then have "book_isbn row = text_affinity (book_isbn new)"
        by (simp add: isbn set_text_def)
      then have tx: "text_affinity (book_isbn row) = book_isbn row"
        by (simp add: text_affinity_idem)
      show ?thesis by (rule row_ok_fresh_isbn [OF rok' tx n x])
    qed
    then have "book_isbn row \<noteq> JNull \<Longrightarrow> book_isbn row \<notin> book_isbn ` set (us @ vs)"
      by force
    then show ?thesis
      using uv by (auto simp: bs' unique_isbn_def)
  qed
  ultimately show ?thesis by (simp add: store_ok_def)
qed

lemma store_ok_cong: "books s' = books s \<Longrightarrow> store_ok s' = store_ok s"
  by (simp add: store_ok_def unique_isbn_def)

lemma store_ok_filter:
  assumes "store_ok s" "books s' = filter P (books s)"
  shows "store_ok s'"
proof -
  have "distinct (map book_isbn (filter (\<lambda>b. book_isbn b \<noteq> JNull) (books s)))"
    using assms(1) by (simp add: store_ok_def unique_isbn_def filter_map comp_def)
  then have "distinct (map book_isbn (filter P (filter (\<lambda>b. book_isbn b \<noteq> JNull) (books s))))"
    by (rule distinct_map_filter)
  then have "unique_isbn s'"
    by (simp add: unique_isbn_def filter_map comp_def assms(2) conj_commute)
  moreover have "distinct (map book_id_pk (books s'))"
    using assms by (simp add: store_ok_def distinct_map_filter)
  ultimately show ?thesis by (simp add: store_ok_def)
qed

lemma create_author_books: "books (snd (create_author data s)) = books s"
  by (auto simp: create_author_def insert_author_def Let_def author_row_ok_def)

lemma update_author_books: "books (snd (update_author k data s)) = books s"
proof (cases "Author_query_get s (JInt k)")
  case (Inl e)
  then show ?thesis by (simp add: update_author_def)
next
  case (Inr x)
  show ?thesis
  proof (cases x)
    case None
    then show ?thesis using Inr by (simp add: update_author_def)
  next
    case (Some a)
    have q: "Author_query_get s (JInt k) = Inr (Some a)" using Inr Some by simp
    show ?thesis
    proof (cases data)
      case None
      then show ?thesis using q by (simp add: update_author_def)
    next
      case d: (Some d)
      from update_author_result [OF q, of d] show ?thesis
      proof
        assume "is_error (fst (update_author k (Some d) s)) \<and> snd (update_author k (Some d) s) = s"
        then show ?thesis using d by simp
      next
        assume "\<exists>row s'. flush_author a (assigned_author d a) s = Inr (row, s') \<and>
            update_author k (Some d) s =
              (Returned (Response 200
                 (AuthorPayload ''Author updated successfully'' (Author_to_dict s' row))), s')"
        then obtain row s' where fl: "flush_author a (assigned_author d a) s = Inr (row, s')"
          and s': "snd (update_author k (Some d) s) = s'" by auto
        show ?thesis using flush_author_Inr [OF fl] s' d by simp
      qed
    qed
  qed
qed

lemma create_book_store_ok:
  assumes "store_ok s"
  shows "store_ok (snd (create_book now data s))"
proof (cases "snd (create_book now data s) = s")
  case True
  then show ?thesis using assms by simp
next
  case False
  then obtain d b where "data = Some d"
    and "insert_book now (dict_get d ''title'') (dict_get d ''author_id'') (dict_get d ''year'')
           (dict_get d ''isbn'') s = Inr (b, snd (create_book now data s))"
    by (cases data) (auto simp: create_book_def split: if_splits option.splits sum.splits)
  then show ?thesis using insert_book_store_ok [OF assms] by blast
qed

lemma update_book_store_ok:
  assumes "store_ok s"
  shows "store_ok (snd (update_book k data s))"
proof (cases "Book_query_get s k")
  case (Inl e)
  then show ?thesis using assms by (simp add: update_book_def)
next
  case (Inr x)
  show ?thesis
  proof (cases x)
    case None
    then show ?thesis using assms Inr by (simp add: update_book_def)
  next
    case (Some book)
    have q: "Book_query_get s k = Inr (Some book)" using Inr Some by simp
    show ?thesis
    proof (cases data)
      case None
      then show ?thesis using assms q by (simp add: update_book_def)
    next
      case d: (Some d)
      from update_book_result [OF q, of d] show ?thesis
      proof
        assume "is_error (fst (update_book k (Some d) s)) \<and> snd (update_book k (Some d) s) = s"
        then show ?thesis using assms d by simp
      next
        assume "\<exists>row s'. flush_book book (assigned_book d book) s = Inr (row, s') \<and>
            update_book k (Some d) s =
              (Returned (Response 200
                 (BookPayload ''Book updated successfully'' (Book_to_dict s' row))), s')"
        then obtain row s' where fl: "flush_book book (assigned_book d book) s = Inr (row, s')"
          and s': "snd (update_book k (Some d) s) = s'" by auto
        have "book \<in> set (books s)" using Book_query_get_Some [OF q] by simp
        then show ?thesis using flush_book_store_ok [OF assms _ fl] d s' by simp
      qed
    qed
  qed
qed

lemma delete_store_ok:
  assumes "store_ok s"
  shows "store_ok (snd (delete_author k s))" and "store_ok (snd (delete_book k s))"
proof -
  show "store_ok (snd (delete_author k s))"
  proof (cases "Author_query_get s (JInt k)")
    case (Inl e)
    then show ?thesis using assms by (simp add: delete_author_def)
  next
    case (Inr x)
    show ?thesis
    proof (cases x)
      case None
      then show ?thesis using assms Inr by (simp add: delete_author_def)
    next
      case (Some a)
      then show ?thesis
        using Inr store_ok_filter [OF assms, of "session_delete_author a s"
            "\<lambda>b. book_id_pk b \<notin> set (map book_id_pk (author_books s a))"]
        by (simp add: delete_author_def session_delete_author_def)
    qed
  qed
  show "store_ok (snd (delete_book k s))"
  proof (cases "Book_query_get s k")
    case (Inl e)
    then show ?thesis using assms by (simp add: delete_book_def)
  next
    case (Inr x)
    show ?thesis
    proof (cases x)
      case None
      then show ?thesis using assms Inr by (simp add: delete_book_def)
    next
      case (Some b)
      then show ?thesis
        using Inr store_ok_filter [OF assms, of "session_delete_book b s"
            "\<lambda>b'. book_id_pk b' \<noteq> book_id_pk b"]
        by (simp add: delete_book_def session_delete_book_def)
    qed
  qed
qed

lemma handlers_keep_store_ok:
  assumes "store_ok s"
  shows "store_ok (snd (create_author data s))" "store_ok (snd (update_author k data s))"
    "store_ok (snd (delete_author k s))" "store_ok (snd (create_book now data s))"
    "store_ok (snd (update_book k data s))" "store_ok (snd (delete_book k s))"
  using assms create_book_store_ok update_book_store_ok delete_store_ok
  by (simp_all add: store_ok_cong [OF create_author_books] store_ok_cong [OF update_author_books])

lemma example_db_store_ok: "store_ok example_db"
  by (simp add: store_ok_def unique_isbn_def example_defs)

end
